theory Spec2Isabelle
  imports Complex_Main "HOL-Library.AList" "HOL-Library.Log_Nat" "HOL-Library.Word"
begin

section \<open>JavaScript numbers\<close>

text \<open>
  A JavaScript number is an IEEE-754 double: a finite value, given here by the rational
  it denotes, an infinity, or NaN. The doubles among the rationals are those that
  \<open>Number_value\<close> below leaves as they are; what is proved for every rational holds for
  them. The two zeros are one value here: the operations below never tell them apart,
  and \<^verbatim>\<open>JSON.stringify\<close> prints both as \<^verbatim>\<open>0\<close>.
\<close>

datatype number = Finite rat | PosInf | NegInf | NaN

text \<open>The exponent of a positive rational: the \<open>e\<close> with \<^verbatim>\<open>2^e <= x < 2^(e+1)\<close>.\<close>

definition ilog2 :: "rat \<Rightarrow> int" where
  "ilog2 x =
     (let (p, q) = quotient_of x; d = bitlen p - bitlen q
      in if 2 powi d \<le> x then d else d - 1)"

text \<open>The nearest integer, a tie going to the even one.\<close>

definition round_even :: "rat \<Rightarrow> int" where
  "round_even q =
     (let f = \<lfloor>q\<rfloor>; r = q - of_int f
      in if r < 1 / 2 then f else if 1 / 2 < r then f + 1 else if even f then f else f + 1)"

text \<open>
  The number value of a real, by which every arithmetic operation rounds its exact
  result: the nearest double (53 significant bits, exponents from \<open>-1022\<close>, below that
  the subnormal spacing \<^verbatim>\<open>2^-1074\<close>), a tie going to the even significand, and an
  infinity from \<^verbatim>\<open>2^1024\<close> on.
\<close>

definition Number_value :: "rat \<Rightarrow> number" where
  "Number_value x =
     (if x = 0 then Finite 0
      else if 2 ^ 1024 \<le> \<bar>x\<bar> then (if 0 < x then PosInf else NegInf)
      else
        let e = max (ilog2 \<bar>x\<bar>) (- 1022);
            u = 2 powi (e - 52);
            y = of_int (round_even (x / u)) * u
        in if 2 ^ 1024 \<le> \<bar>y\<bar> then (if 0 < x then PosInf else NegInf) else Finite y)"

text \<open>\<^verbatim>\<open>x + y\<close>\<close>

fun fadd :: "number \<Rightarrow> number \<Rightarrow> number" where
  "fadd NaN y = NaN"
| "fadd x NaN = NaN"
| "fadd PosInf NegInf = NaN"
| "fadd NegInf PosInf = NaN"
| "fadd PosInf y = PosInf"
| "fadd NegInf y = NegInf"
| "fadd x PosInf = PosInf"
| "fadd x NegInf = NegInf"
| "fadd (Finite x) (Finite y) = Number_value (x + y)"

text \<open>\<^verbatim>\<open>x * c\<close> and \<^verbatim>\<open>x / c\<close> for a positive constant \<open>c\<close> (the tools use 3 and 100).\<close>

fun fmul_pos :: "number \<Rightarrow> rat \<Rightarrow> number" where
  "fmul_pos (Finite x) c = Number_value (x * c)"
| "fmul_pos x c = x"

fun fdiv_pos :: "number \<Rightarrow> rat \<Rightarrow> number" where
  "fdiv_pos (Finite x) c = Number_value (x / c)"
| "fdiv_pos x c = x"

text \<open>
  \<^verbatim>\<open>Math.round\<close>: the nearest integer, a half rounded towards plus infinity; an infinity
  and NaN are returned as they are.
\<close>

fun Math_round :: "number \<Rightarrow> number" where
  "Math_round (Finite x) = Finite (of_int \<lfloor>x + 1 / 2\<rfloor>)"
| "Math_round x = x"

section \<open>JavaScript values\<close>

text \<open>
  The bridge handles events as the values \<^verbatim>\<open>JSON.parse\<close> returns. An object is the
  ordered list of its own properties, each key once.
\<close>

datatype json =
    JNull
  | JBool bool
  | JNum number
  | JStr string
  | JArr "json list"
  | JObj "(string \<times> json) list"

text \<open>
  A property read \<^verbatim>\<open>v.key\<close> on a value other than \<^verbatim>\<open>null\<close>, for the keys the
  bridge reads (\<^verbatim>\<open>type\<close>, \<^verbatim>\<open>call_id\<close>, \<^verbatim>\<open>delta\<close>, \<^verbatim>\<open>name\<close>, \<^verbatim>\<open>arguments\<close>
  and the tool arguments): \<open>None\<close> is \<^verbatim>\<open>undefined\<close>. Only an object has such a
  property; a read on a number, string, boolean or array gives \<^verbatim>\<open>undefined\<close>. The
  read on \<^verbatim>\<open>null\<close> raises a TypeError, which each caller writes out.
\<close>

fun field :: "json \<Rightarrow> string \<Rightarrow> json option" where
  "field (JObj kvs) k = map_of kvs k"
| "field _ k = None"

text \<open>JavaScript truthiness, as \<^verbatim>\<open>!v\<close> and \<^verbatim>\<open>v || d\<close> test it.\<close>

fun truthy :: "json option \<Rightarrow> bool" where
  "truthy None = False"
| "truthy (Some JNull) = False"
| "truthy (Some (JBool b)) = b"
| "truthy (Some (JNum n)) = (n \<noteq> Finite 0 \<and> n \<noteq> NaN)"
| "truthy (Some (JStr s)) = (s \<noteq> [])"
| "truthy (Some (JArr xs)) = True"
| "truthy (Some (JObj kvs)) = True"

text \<open>\<^verbatim>\<open>v || d\<close> for a value read from an event and a default.\<close>

fun or_else :: "json option \<Rightarrow> json \<Rightarrow> json" where
  "or_else None d = d"
| "or_else (Some v) d = (if truthy (Some v) then v else d)"

datatype exn = TypeError

text \<open>
  What the JavaScript runtime provides: \<^verbatim>\<open>JSON.parse\<close> on a string (\<open>Inl msg\<close> is the
  SyntaxError it throws, with its message), \<^verbatim>\<open>JSON.stringify\<close>, the decimal notation
  of a number, and the message of the TypeError that a failed conversion to a string
  throws.
\<close>

record runtime =
  JSON_parse :: "string \<Rightarrow> string + json"
  JSON_stringify :: "json \<Rightarrow> string"
  Number_toString :: "number \<Rightarrow> string"
  TypeError_message :: string

text \<open>
  The conversion of a value to a string, as a template literal and \<^verbatim>\<open>JSON.parse\<close>
  apply it. An array joins the strings of its elements with commas, \<^verbatim>\<open>null\<close> giving
  the empty string. An object without an own \<^verbatim>\<open>toString\<close> property is
  \<^verbatim>\<open>[object Object]\<close>; with one, which in a parsed value is never a function, the
  conversion throws a TypeError, as it does for an array with such an element.
\<close>

fun join_elems :: "(exn + string) list \<Rightarrow> exn + string" where
  "join_elems [] = Inr []"
| "join_elems [x] = x"
| "join_elems (x # y # ys) =
     (case x of
        Inl e \<Rightarrow> Inl e
      | Inr s \<Rightarrow> (case join_elems (y # ys) of Inl e \<Rightarrow> Inl e | Inr t \<Rightarrow> Inr (s @ '','' @ t)))"

fun ToString :: "runtime \<Rightarrow> json \<Rightarrow> exn + string" where
  "ToString rt JNull = Inr ''null''"
| "ToString rt (JBool b) = Inr (if b then ''true'' else ''false'')"
| "ToString rt (JNum n) = Inr (Number_toString rt n)"
| "ToString rt (JStr s) = Inr s"
| "ToString rt (JArr xs) =
     join_elems (map (\<lambda>x. if x = JNull then Inr [] else ToString rt x) xs)"
| "ToString rt (JObj kvs) =
     (if map_of kvs ''toString'' \<noteq> None then Inl TypeError else Inr ''[object Object]'')"

text \<open>The same for a value that may be \<^verbatim>\<open>undefined\<close>.\<close>

fun toStr :: "runtime \<Rightarrow> json option \<Rightarrow> exn + string" where
  "toStr rt None = Inr ''undefined''"
| "toStr rt (Some v) = ToString rt v"

section \<open>Tool stubs (workers/realtime/src/tools.ts)\<close>

text \<open>\<^verbatim>\<open>typeof v === "number" ? v : 0\<close>\<close>

fun number_or_zero :: "json option \<Rightarrow> number" where
  "number_or_zero (Some (JNum n)) = n"
| "number_or_zero _ = Finite 0"

text \<open>\<^verbatim>\<open>typeof v === "string" ? v : d\<close>\<close>

fun string_or :: "json option \<Rightarrow> string \<Rightarrow> string" where
  "string_or (Some (JStr s)) d = s"
| "string_or _ d = d"

definition gradeLesson :: "json \<Rightarrow> exn + json" where
  "gradeLesson args =
     (if args = JNull then Inl TypeError
      else
        let vocabScore = number_or_zero (field args ''vocabulary_score'');
            grammarScore = number_or_zero (field args ''grammar_score'');
            fluencyScore = number_or_zero (field args ''fluency_score'');
            average = fdiv_pos (fadd (fadd vocabScore grammarScore) fluencyScore) 3
        in Inr (JObj
             [(''ok'', JBool True),
              (''score'', JNum (fdiv_pos (Math_round (fmul_pos average 100)) 100)),
              (''vocabulary_score'', JNum vocabScore),
              (''grammar_score'', JNum grammarScore),
              (''fluency_score'', JNum fluencyScore),
              (''notes'', JStr (string_or (field args ''notes'') ''stub''))]))"

definition triggerQuiz :: "json \<Rightarrow> string \<Rightarrow> exn + json" where
  "triggerQuiz args scenarioId =
     (if args = JNull then Inl TypeError
      else Inr (JObj
             [(''ok'', JBool True),
              (''quiz'', JObj
                 [(''lesson_id'', JStr (string_or (field args ''lesson_id'') scenarioId)),
                  (''focus'', JStr (string_or (field args ''focus'') ''vocabulary''))])]))"

text \<open>
  The dispatcher. \<^verbatim>\<open>switch (name)\<close> compares with strict equality, so only the two
  strings match; for any other name the message of the failure result converts the name
  to a string, which can throw. The result is serialised.
\<close>

definition executeTool :: "runtime \<Rightarrow> json \<Rightarrow> json \<Rightarrow> string \<Rightarrow> exn + string" where
  "executeTool rt nm args scenarioId =
     (let result =
        (if nm = JStr ''grade_lesson'' then gradeLesson args
         else if nm = JStr ''trigger_quiz'' then triggerQuiz args scenarioId
         else (case ToString rt nm of
                 Inl e \<Rightarrow> Inl e
               | Inr s \<Rightarrow> Inr (JObj
                   [(''ok'', JBool False),
                    (''error'', JStr (''Unknown tool: '' @ s))])))
      in case result of
           Inl e \<Rightarrow> Inl e
         | Inr r \<Rightarrow> Inr (JSON_stringify rt r))"

section \<open>The session (RealtimeSession)\<close>

datatype ready_state = CONNECTING | OPEN | CLOSING | CLOSED

record websocket =
  readyState :: ready_state

text \<open>One accumulating tool call: \<^verbatim>\<open>{ name, argFragments }\<close>.\<close>

record pending =
  name :: json
  argFragments :: "string list"

text \<open>
  A JavaScript \<^verbatim>\<open>Map\<close> keyed by values read from events: the entries in insertion
  order. Keys are compared by SameValueZero: primitives by value, arrays and objects by
  identity. Every event is parsed into fresh objects, so an array or object read from
  an event is never the key of an existing entry.
\<close>

type_synonym 'v jsmap = "(json \<times> 'v) list"

fun primitive :: "json \<Rightarrow> bool" where
  "primitive (JArr xs) = False"
| "primitive (JObj kvs) = False"
| "primitive _ = True"

definition Map_get :: "'v jsmap \<Rightarrow> json \<Rightarrow> 'v option" where
  "Map_get m k = (if primitive k then map_of m k else None)"

definition Map_set :: "'v jsmap \<Rightarrow> json \<Rightarrow> 'v \<Rightarrow> 'v jsmap" where
  "Map_set m k v = (if primitive k then AList.update k v m else m @ [(k, v)])"

definition Map_delete :: "'v jsmap \<Rightarrow> json \<Rightarrow> 'v jsmap" where
  "Map_delete m k = (if primitive k then AList.delete k m else m)"

record session =
  clientWs :: "websocket option"
  upstreamWs :: "websocket option"
  scenarioId :: string
  userId :: string
  pendingToolCalls :: "pending jsmap"

text \<open>The fields of a scenario definition that the session reads.\<close>

record scenario =
  system :: string
  opening_line :: string
  tools :: "json list"

text \<open>A WebSocket message is a string or an ArrayBuffer.\<close>

datatype frame = Text string | Binary "8 word list"

text \<open>
  What a handler does besides updating the session: the calls it makes on the two
  sockets, in order, and its calls of the tool dispatcher (tool name, parsed arguments,
  scenario id).
\<close>

datatype effect =
    UpstreamSend frame
  | ClientSend frame
  | UpstreamClose nat string
  | ClientClose nat string
  | ExecuteTool json json string

text \<open>A handler returns, or an exception leaves it (and the event listener).\<close>

datatype outcome = Returned | Threw exn

type_synonym result = "session \<times> effect list \<times> outcome"

definition is_open :: "websocket option \<Rightarrow> bool" where
  "is_open ws = (case ws of None \<Rightarrow> False | Some w \<Rightarrow> readyState w = OPEN)"

definition sendUpstream :: "runtime \<Rightarrow> session \<Rightarrow> json \<Rightarrow> effect list" where
  "sendUpstream rt st data =
     (if is_open (upstreamWs st) then [UpstreamSend (Text (JSON_stringify rt data))] else [])"

definition sendClient :: "runtime \<Rightarrow> session \<Rightarrow> json \<Rightarrow> effect list" where
  "sendClient rt st data =
     (if is_open (clientWs st) then [ClientSend (Text (JSON_stringify rt data))] else [])"

definition cleanup :: "session \<Rightarrow> session \<times> effect list" where
  "cleanup st =
     (st\<lparr>upstreamWs := None, clientWs := None, pendingToolCalls := []\<rparr>,
      if is_open (upstreamWs st) then [UpstreamClose 1000 ''Client disconnected''] else [])"

subsection \<open>Constants of shared/src\<close>

definition ALLOWED_CLIENT_EVENT_TYPES :: "string list" where
  "ALLOWED_CLIENT_EVENT_TYPES =
     [''input_audio_buffer.append'',
      ''input_audio_buffer.commit'',
      ''response.cancel'',
      ''conversation.item.truncate'',
      ''response.create'',
      ''conversation.item.create'',
      ''session.update'']"

text \<open>
  The global tutor rules, a template literal whose lines each end in a line feed.
  Strings are byte strings here: the dash of the third rule is its three UTF-8 bytes.
\<close>

definition GLOBAL_TUTOR_RULES :: string where
  "GLOBAL_TUTOR_RULES =
     ''You are a friendly, encouraging language tutor having a real-time voice conversation with a student.'' @ [CHR 0x0A]
     @ [CHR 0x0A]
     @ ''Rules:'' @ [CHR 0x0A]
     @ ''- Speak in the target language at the student'' @ [CHR 0x27] @ ''s level. Use simple vocabulary and short sentences for beginners.'' @ [CHR 0x0A]
     @ ''- If the student makes a mistake, gently correct them and explain briefly.'' @ [CHR 0x0A]
     @ ''- Keep your responses concise '' @ [CHR 0xE2, CHR 0x80, CHR 0x94] @ '' this is a spoken conversation, not a written essay.'' @ [CHR 0x0A]
     @ ''- Encourage the student frequently.'' @ [CHR 0x0A]
     @ ''- Stay in character for the scenario described below.'' @ [CHR 0x0A]
     @ ''- If the student asks to switch topics, politely steer them back to the lesson scenario.'' @ [CHR 0x0A]
     @ ''- Use the provided tools (grade_lesson, trigger_quiz) when appropriate.'' @ [CHR 0x0A]"

subsection \<open>On upstream open\<close>

definition onUpstreamOpen :: "runtime \<Rightarrow> session \<Rightarrow> scenario \<Rightarrow> session \<times> effect list" where
  "onUpstreamOpen rt st sc =
     (st,
      sendUpstream rt st (JObj
        [(''type'', JStr ''session.update''),
         (''session'', JObj
            [(''instructions'', JStr (GLOBAL_TUTOR_RULES @ [CHR 0x0A, CHR 0x0A] @ system sc)),
             (''turn_detection'', JObj
                [(''type'', JStr ''server_vad''),
                 (''interrupt_response'', JBool True),
                 (''create_response'', JBool True)]),
             (''modalities'', JArr [JStr ''audio'', JStr ''text'']),
             (''input_audio_format'', JStr ''pcm16''),
             (''output_audio_format'', JStr ''pcm16''),
             (''tools'', JArr (tools sc))])])
      @ sendUpstream rt st (JObj
        [(''type'', JStr ''conversation.item.create''),
         (''item'', JObj
            [(''type'', JStr ''message''),
             (''role'', JStr ''assistant''),
             (''content'', JArr
                [JObj [(''type'', JStr ''input_text''),
                       (''text'', JStr (opening_line sc))]])])])
      @ sendUpstream rt st (JObj [(''type'', JStr ''response.create'')]))"

subsection \<open>Client to upstream relay, with the whitelist\<close>

text \<open>
  \<^verbatim>\<open>ALLOWED_CLIENT_EVENT_TYPES.includes(eventType)\<close>: only a string can be a member.
  The error event is built before \<^verbatim>\<open>sendClient\<close> is called, and its message converts
  the type to a string; where that throws, the exception leaves the handler.
\<close>

fun array_includes :: "string list \<Rightarrow> json option \<Rightarrow> bool" where
  "array_includes xs (Some (JStr t)) = (t \<in> set xs)"
| "array_includes xs _ = False"

definition handleClientMessage :: "runtime \<Rightarrow> session \<Rightarrow> frame \<Rightarrow> result" where
  "handleClientMessage rt st data =
     (if \<not> is_open (upstreamWs st) then (st, [], Returned)
      else (case data of
        Binary b \<Rightarrow> (st, [], Returned)
      | Text s \<Rightarrow>
         (case JSON_parse rt s of
            Inl msg \<Rightarrow> (st, [], Returned)
          | Inr parsed \<Rightarrow>
             if parsed = JNull then (st, [], Threw TypeError)
             else
               let eventType = field parsed ''type'' in
               if \<not> truthy eventType \<or> \<not> array_includes ALLOWED_CLIENT_EVENT_TYPES eventType
               then (case toStr rt eventType of
                       Inl e \<Rightarrow> (st, [], Threw e)
                     | Inr t \<Rightarrow>
                        (st,
                         sendClient rt st (JObj
                           [(''type'', JStr ''error''),
                            (''error'', JObj
                               [(''message'', JStr (''Event type not allowed: '' @ t))])]),
                         Returned))
               else (st, [UpstreamSend (Text s)], Returned))))"

subsection \<open>Tool call accumulation\<close>

text \<open>\<^verbatim>\<open>typeof v === "string"\<close>, with the string.\<close>

fun as_string :: "json option \<Rightarrow> string option" where
  "as_string (Some (JStr s)) = Some s"
| "as_string _ = None"

text \<open>
  The entry is looked up or created, takes the name of the event when that is a
  non-empty string, and gets the delta appended. The entry is a shared object in the
  source; here the finished entry is stored under the key.
\<close>

definition onToolCallDelta :: "session \<Rightarrow> json \<Rightarrow> session" where
  "onToolCallDelta st event =
     (case field event ''call_id'' of
        None \<Rightarrow> st
      | Some callId \<Rightarrow>
         (case as_string (field event ''delta'') of
            None \<Rightarrow> st
          | Some delta \<Rightarrow>
             if \<not> truthy (Some callId) then st
             else
               let entry =
                     (case Map_get (pendingToolCalls st) callId of
                        None \<Rightarrow> \<lparr>name = or_else (field event ''name'') (JStr []),
                                 argFragments = []\<rparr>
                      | Some e \<Rightarrow> e);
                   named =
                     (case as_string (field event ''name'') of
                        None \<Rightarrow> entry
                      | Some n \<Rightarrow> if n \<noteq> [] then entry\<lparr>name := JStr n\<rparr> else entry)
               in st\<lparr>pendingToolCalls :=
                       Map_set (pendingToolCalls st) callId
                         (named\<lparr>argFragments := argFragments named @ [delta]\<rparr>)\<rparr>))"

text \<open>
  The local constants \<^verbatim>\<open>argsString\<close> and \<^verbatim>\<open>toolName\<close> of \<^verbatim>\<open>onToolCallDone\<close>:
  \<^verbatim>\<open>entry ? entry.argFragments.join("") : (event.arguments as string) || "{}"\<close> and
  \<^verbatim>\<open>entry?.name || name\<close>, where \<^verbatim>\<open>name\<close> is \<^verbatim>\<open>(event.name as string) || ""\<close>.
\<close>

definition argsString :: "pending option \<Rightarrow> json \<Rightarrow> json" where
  "argsString entry event =
     (case entry of
        Some e \<Rightarrow> JStr (concat (argFragments e))
      | None \<Rightarrow> or_else (field event ''arguments'') (JStr ''{}''))"

definition toolName :: "pending option \<Rightarrow> json \<Rightarrow> json" where
  "toolName entry event =
     (case entry of
        Some e \<Rightarrow>
          if truthy (Some (name e)) then name e
          else or_else (field event ''name'') (JStr [])
      | None \<Rightarrow> or_else (field event ''name'') (JStr []))"

text \<open>
  \<^verbatim>\<open>JSON.parse(argsString)\<close> inside the \<^verbatim>\<open>try\<close>: the argument is converted to a
  string and parsed. Whatever is thrown is caught and gives its message.
\<close>

definition try_parse :: "runtime \<Rightarrow> json \<Rightarrow> string + json" where
  "try_parse rt v =
     (case ToString rt v of
        Inl e \<Rightarrow> Inl (TypeError_message rt)
      | Inr s \<Rightarrow> JSON_parse rt s)"

text \<open>The two messages that answer a tool call.\<close>

definition function_call_output :: "json \<Rightarrow> string \<Rightarrow> json" where
  "function_call_output callId output =
     JObj [(''type'', JStr ''conversation.item.create''),
           (''item'', JObj
              [(''type'', JStr ''function_call_output''),
               (''call_id'', callId),
               (''output'', JStr output)])]"

definition response_create :: json where
  "response_create = JObj [(''type'', JStr ''response.create'')]"

definition onToolCallDone :: "runtime \<Rightarrow> session \<Rightarrow> json \<Rightarrow> result" where
  "onToolCallDone rt st event =
     (case field event ''call_id'' of
        None \<Rightarrow> (st, [], Returned)
      | Some callId \<Rightarrow>
         if \<not> truthy (Some callId) then (st, [], Returned)
         else
           let entry = Map_get (pendingToolCalls st) callId;
               args_string = argsString entry event;
               tool = toolName entry event;
               st' = st\<lparr>pendingToolCalls := Map_delete (pendingToolCalls st) callId\<rparr>
           in (case try_parse rt args_string of
                Inl msg \<Rightarrow>
                  (st',
                   sendUpstream rt st'
                     (function_call_output callId
                        (JSON_stringify rt (JObj
                           [(''ok'', JBool False),
                            (''error'', JStr (''Failed to parse tool arguments: '' @ msg))])))
                   @ sendUpstream rt st' response_create,
                   Returned)
              | Inr args \<Rightarrow>
                 (case executeTool rt tool args (scenarioId st') of
                    Inl e \<Rightarrow> (st', [ExecuteTool tool args (scenarioId st')], Threw e)
                  | Inr output \<Rightarrow>
                     (st',
                      [ExecuteTool tool args (scenarioId st')]
                      @ sendUpstream rt st' (function_call_output callId output)
                      @ sendUpstream rt st' response_create,
                      Returned))))"

subsection \<open>Upstream to client relay\<close>

text \<open>
  The \<^verbatim>\<open>switch\<close> on \<^verbatim>\<open>event.type\<close> (strict equality with the two strings), then the
  relay of the parsed event. An exception of the tool call handling leaves the handler
  before the relay.
\<close>

definition handleUpstreamMessage :: "runtime \<Rightarrow> session \<Rightarrow> frame \<Rightarrow> result" where
  "handleUpstreamMessage rt st data =
     (case data of
        Binary b \<Rightarrow>
          (st, (case clientWs st of None \<Rightarrow> [] | Some w \<Rightarrow> [ClientSend (Binary b)]), Returned)
      | Text s \<Rightarrow>
         (case JSON_parse rt s of
            Inl msg \<Rightarrow> (st, [], Returned)
          | Inr event \<Rightarrow>
             if event = JNull then (st, [], Threw TypeError)
             else
               let (st1, effs, out) =
                     (if field event ''type'' = Some (JStr ''response.function_call_arguments.delta'')
                      then (onToolCallDelta st event, [], Returned)
                      else if field event ''type'' = Some (JStr ''response.function_call_arguments.done'')
                      then onToolCallDone rt st event
                      else (st, [], Returned))
               in (case out of
                     Threw e \<Rightarrow> (st1, effs, Threw e)
                   | Returned \<Rightarrow> (st1, effs @ sendClient rt st1 event, Returned))))"

subsection \<open>Closing\<close>

text \<open>The client socket's \<^verbatim>\<open>close\<close> and \<^verbatim>\<open>error\<close> listeners both run \<^verbatim>\<open>cleanup\<close>.\<close>

definition onClientClose :: "session \<Rightarrow> session \<times> effect list" where
  "onClientClose st = cleanup st"

definition onClientError :: "session \<Rightarrow> session \<times> effect list" where
  "onClientError st = cleanup st"

text \<open>
  The upstream socket's \<^verbatim>\<open>close\<close> listener forwards the close event's code and reason
  (or \<^verbatim>\<open>"Upstream closed"\<close> for an empty reason) to an open client socket. By the
  WebSocket interface, \<^verbatim>\<open>close\<close> on an open socket sets its \<^verbatim>\<open>readyState\<close> to CLOSING.
\<close>

definition onUpstreamClose :: "session \<Rightarrow> nat \<Rightarrow> string \<Rightarrow> session \<times> effect list" where
  "onUpstreamClose st code reason =
     (if is_open (clientWs st)
      then (st\<lparr>clientWs := Some \<lparr>readyState = CLOSING\<rparr>\<rparr>,
            [ClientClose code (if reason = [] then ''Upstream closed'' else reason)])
      else (st, []))"

text \<open>
  The upstream socket's \<^verbatim>\<open>error\<close> listener logs and rejects the promise of
  \<^verbatim>\<open>connectUpstream\<close>. Once the session is active that promise is resolved, and the
  rejection does nothing.
\<close>

definition onUpstreamError :: "session \<Rightarrow> session \<times> effect list" where
  "onUpstreamError st = (st, [])"

subsection \<open>The events of an active session\<close>

datatype input =
    ClientMessage frame
  | ClientClosed
  | ClientErrored
  | UpstreamMessage frame
  | UpstreamClosed nat string
  | UpstreamErrored

text \<open>
  A socket that dispatches its \<^verbatim>\<open>close\<close> event is closed: the listener of the upstream
  socket runs with that socket in the state CLOSED, if the session still holds it. (The
  client socket's listener drops both handles, whatever their state.)
\<close>

definition closed :: "websocket option \<Rightarrow> websocket option" where
  "closed ws = map_option (\<lambda>w. w\<lparr>readyState := CLOSED\<rparr>) ws"

fun step :: "runtime \<Rightarrow> session \<Rightarrow> input \<Rightarrow> session" where
  "step rt st (ClientMessage data) = fst (handleClientMessage rt st data)"
| "step rt st ClientClosed = fst (onClientClose st)"
| "step rt st ClientErrored = fst (onClientError st)"
| "step rt st (UpstreamMessage data) = fst (handleUpstreamMessage rt st data)"
| "step rt st (UpstreamClosed code reason) =
     fst (onUpstreamClose (st\<lparr>upstreamWs := closed (upstreamWs st)\<rparr>) code reason)"
| "step rt st UpstreamErrored = fst (onUpstreamError st)"

definition run :: "runtime \<Rightarrow> session \<Rightarrow> input list \<Rightarrow> session" where
  "run rt st ins = foldl (step rt) st ins"

text \<open>An active session: both sockets open, no tool call pending.\<close>

definition active_session :: "string \<Rightarrow> string \<Rightarrow> session" where
  "active_session sid uid =
     \<lparr>clientWs = Some \<lparr>readyState = OPEN\<rparr>,
      upstreamWs = Some \<lparr>readyState = OPEN\<rparr>,
      scenarioId = sid,
      userId = uid,
      pendingToolCalls = []\<rparr>"

section \<open>A concrete runtime and concrete sessions\<close>

text \<open>
  The theorems below hold for every runtime. To evaluate the handlers on concrete
  inputs, \<open>rt0\<close> supplies the runtime on a fragment of JSON: the decimal notation of the
  integers below \<^verbatim>\<open>10^21\<close> in absolute value, of the infinities and of NaN (another
  number is outside the fragment, and shown as a question mark); a serialiser for values
  with such numbers, an infinity or NaN being serialised as \<^verbatim>\<open>null\<close>, and with strings
  that need no escape other than those of the quotation mark, the backslash and the line
  feed; and the parse results of the texts that are parsed below (every other text is
  reported as a syntax error).
\<close>

function show_nat :: "nat \<Rightarrow> string" where
  "show_nat n =
     (if n < 10 then [''0123456789'' ! n]
      else show_nat (n div 10) @ [''0123456789'' ! (n mod 10)])"
  by pat_completeness auto
termination
  by (relation "measure id") auto

declare show_nat.simps [simp del]

fun show_num :: "number \<Rightarrow> string" where
  "show_num (Finite x) =
     (if x = of_int \<lfloor>x\<rfloor> \<and> \<bar>x\<bar> < 10 ^ 21
      then (if x < 0 then ''-'' else []) @ show_nat (nat \<bar>\<lfloor>x\<rfloor>\<bar>)
      else ''?'')"
| "show_num PosInf = ''Infinity''"
| "show_num NegInf = ''-Infinity''"
| "show_num NaN = ''NaN''"

fun escape :: "char \<Rightarrow> string" where
  "escape c =
     (if c = CHR 0x22 then [CHR 0x5C, CHR 0x22]
      else if c = CHR 0x5C then [CHR 0x5C, CHR 0x5C]
      else if c = CHR 0x0A then [CHR 0x5C, CHR ''n'']
      else [c])"

definition quote :: "string \<Rightarrow> string" where
  "quote s = [CHR 0x22] @ concat (map escape s) @ [CHR 0x22]"

fun join_comma :: "string list \<Rightarrow> string" where
  "join_comma [] = []"
| "join_comma [x] = x"
| "join_comma (x # y # ys) = x @ '','' @ join_comma (y # ys)"

fun stringify0 :: "json \<Rightarrow> string" where
  "stringify0 JNull = ''null''"
| "stringify0 (JBool b) = (if b then ''true'' else ''false'')"
| "stringify0 (JNum n) = (case n of Finite x \<Rightarrow> show_num n | _ \<Rightarrow> ''null'')"
| "stringify0 (JStr s) = quote s"
| "stringify0 (JArr xs) = ''['' @ join_comma (map stringify0 xs) @ '']''"
| "stringify0 (JObj kvs) =
     ''{'' @ join_comma (map (\<lambda>(k, v). quote k @ '':'' @ stringify0 v) kvs) @ ''}''"

text \<open>A client message with a type outside the whitelist.\<close>

definition msg_foo :: string where
  "msg_foo = ''{\"type\":\"foo\"}''"

text \<open>The same message as a client or server may also write it, with spaces.\<close>

definition msg_spaced :: string where
  "msg_spaced = ''{ \"type\": \"foo\" }''"

text \<open>A client message whose type is an object with a property \<^verbatim>\<open>toString\<close>.\<close>

definition msg_tostring :: string where
  "msg_tostring = ''{\"type\":{\"toString\":1}}''"

text \<open>An upstream completion event that carries its arguments itself.\<close>

definition msg_done :: string where
  "msg_done = ''{\"type\":\"response.function_call_arguments.done\",\"call_id\":\"c1\",\"name\":\"trigger_quiz\",\"arguments\":\"{}\"}''"

definition event_done :: json where
  "event_done =
     JObj [(''type'', JStr ''response.function_call_arguments.done''),
           (''call_id'', JStr ''c1''),
           (''name'', JStr ''trigger_quiz''),
           (''arguments'', JStr ''{}'')]"

text \<open>A completion event whose arguments are the text \<^verbatim>\<open>null\<close>.\<close>

definition msg_done_null :: string where
  "msg_done_null = ''{\"type\":\"response.function_call_arguments.done\",\"call_id\":\"c1\",\"name\":\"trigger_quiz\",\"arguments\":\"null\"}''"

definition event_done_null :: json where
  "event_done_null =
     JObj [(''type'', JStr ''response.function_call_arguments.done''),
           (''call_id'', JStr ''c1''),
           (''name'', JStr ''trigger_quiz''),
           (''arguments'', JStr ''null'')]"

definition JSON_parse0 :: "string \<Rightarrow> string + json" where
  "JSON_parse0 s =
     (if s = msg_foo then Inr (JObj [(''type'', JStr ''foo'')])
      else if s = msg_spaced then Inr (JObj [(''type'', JStr ''foo'')])
      else if s = msg_tostring
        then Inr (JObj [(''type'', JObj [(''toString'', JNum (Finite 1))])])
      else if s = msg_done then Inr event_done
      else if s = msg_done_null then Inr event_done_null
      else if s = ''{}'' then Inr (JObj [])
      else if s = ''null'' then Inr JNull
      else if s = ''5'' then Inr (JNum (Finite 5))
      else if s = ''{\"focus\":\"verbs\"}'' then Inr (JObj [(''focus'', JStr ''verbs'')])
      else if s = ''{\"focus\":'' then Inl ''Unexpected end of JSON input''
      else if s = ''not json'' then Inl ''Unexpected token o in JSON at position 1''
      else Inl ''Unexpected token'')"

definition rt0 :: runtime where
  "rt0 =
     \<lparr>JSON_parse = JSON_parse0,
      JSON_stringify = stringify0,
      Number_toString = show_num,
      TypeError_message = ''Cannot convert object to primitive value''\<rparr>"

definition session0 :: session where
  "session0 = active_session ''a1_taxi_bogota'' ''anonymous''"

text \<open>Two fragments of one call, and its completion event.\<close>

definition delta1 :: json where
  "delta1 =
     JObj [(''type'', JStr ''response.function_call_arguments.delta''),
           (''call_id'', JStr ''c1''),
           (''name'', JStr ''trigger_quiz''),
           (''delta'', JStr ''{\"focus\":'')]"

definition delta2 :: json where
  "delta2 =
     JObj [(''type'', JStr ''response.function_call_arguments.delta''),
           (''call_id'', JStr ''c1''),
           (''delta'', JStr ''\"verbs\"}'')]"

text \<open>A fragment that carries no tool name.\<close>

definition delta_unnamed :: json where
  "delta_unnamed =
     JObj [(''type'', JStr ''response.function_call_arguments.delta''),
           (''call_id'', JStr ''c1''),
           (''delta'', JStr ''{}'')]"

text \<open>A fragment whose delta is the whole argument text \<^verbatim>\<open>5\<close>.\<close>

definition delta_five :: json where
  "delta_five =
     JObj [(''type'', JStr ''response.function_call_arguments.delta''),
           (''call_id'', JStr ''c1''),
           (''name'', JStr ''trigger_quiz''),
           (''delta'', JStr ''5'')]"

definition scenario0 :: scenario where
  "scenario0 =
     \<lparr>system = ''You are a taxi driver in Bogota.'',
      opening_line = ''Buenas tardes. A donde vamos?'',
      tools = []\<rparr>"

text \<open>A fragment of another call, which arrives between the two fragments above.\<close>

definition delta_other :: json where
  "delta_other =
     JObj [(''type'', JStr ''response.function_call_arguments.delta''),
           (''call_id'', JStr ''c2''),
           (''name'', JStr ''grade_lesson''),
           (''delta'', JStr ''{}'')]"

text \<open>
  The session after the first fragment, after the fragment without a name, after the
  fragment \<^verbatim>\<open>5\<close>, and after the two fragments with the fragment of the other call
  between them.
\<close>

definition session1 :: session where
  "session1 = onToolCallDelta session0 delta1"

definition session_unnamed :: session where
  "session_unnamed = onToolCallDelta session0 delta_unnamed"

definition session_five :: session where
  "session_five = onToolCallDelta session0 delta_five"

definition session3 :: session where
  "session3 = foldl onToolCallDelta session0 [delta1, delta_other, delta2]"

text \<open>
  The double nearest to 24.645, which is a little less (\<^verbatim>\<open>6936950801034117 / 2^48\<close>), as
  the only sub-score.
\<close>

definition near_half_scores :: json where
  "near_half_scores =
     JObj [(''vocabulary_score'', JNum (Finite (6936950801034117 / 2 ^ 48)))]"

text \<open>Three sub-scores whose sum exceeds the largest double, though their mean does not.\<close>

definition huge_scores :: json where
  "huge_scores =
     JObj [(''vocabulary_score'', JNum (Finite (2 ^ 1023))),
           (''grammar_score'', JNum (Finite (2 ^ 1023))),
           (''fluency_score'', JNum (Finite (2 ^ 1023)))]"

section \<open>Notions used in the statements\<close>

text \<open>The fragments accumulated for a call id.\<close>

definition fragments :: "session \<Rightarrow> json \<Rightarrow> string list" where
  "fragments st k =
     (case Map_get (pendingToolCalls st) k of None \<Rightarrow> [] | Some e \<Rightarrow> argFragments e)"

text \<open>A fragment event for the call id \<open>k\<close>: it carries the id and a string delta.\<close>

definition fragment_for :: "json \<Rightarrow> json \<Rightarrow> bool" where
  "fragment_for k ev \<longleftrightarrow>
     field ev ''call_id'' = Some k \<and> as_string (field ev ''delta'') \<noteq> None"

text \<open>
  No two entries share a call id. (An array or object as call id is a key of its own
  at every event, by identity; the ids that can be shared are the primitive ones.)
\<close>

definition unique_call_ids :: "'v jsmap \<Rightarrow> bool" where
  "unique_call_ids m = distinct (filter primitive (map fst m))"

fun is_client_send :: "effect \<Rightarrow> bool" where
  "is_client_send (ClientSend f) = True"
| "is_client_send _ = False"

lemmas msgs = msg_foo_def msg_spaced_def msg_tostring_def msg_done_def msg_done_null_def

section \<open>Rounding to a double\<close>

lemma ilog2_bounds:
  assumes "0 < x"
  shows "2 powi ilog2 x \<le> x" and "x < 2 powi (ilog2 x + 1)"
proof -
  obtain p q where pq: "quotient_of x = (p, q)"
    by (cases "quotient_of x") auto
  have q: "0 < q" and x: "x = of_int p / of_int q"
    using quotient_of_denom_pos [OF pq] quotient_of_div [OF pq] by simp_all
  have p: "0 < p"
    using assms q x by (simp add: zero_less_divide_iff)
  let ?P = "bitlen p" and ?Q = "bitlen q"
  have P1: "1 \<le> ?P" and Q1: "1 \<le> ?Q"
    using p q by (simp_all add: bitlen_alt_def)
  have pl: "(2::rat) powi (?P - 1) \<le> of_int p" and pu: "of_int p < (2::rat) powi ?P"
  proof -
    from bitlen_bounds [OF p] have "(2::int) ^ nat (?P - 1) \<le> p" "p < 2 ^ nat ?P"
      by simp_all
    then have "(of_int ((2::int) ^ nat (?P - 1)) :: rat) \<le> of_int p"
      "(of_int p :: rat) < of_int (2 ^ nat ?P)"
      by (simp_all only: of_int_le_iff of_int_less_iff)
    then show "(2::rat) powi (?P - 1) \<le> of_int p" "of_int p < (2::rat) powi ?P"
      using P1 by (simp_all add: power_int_nonneg_exp)
  qed
  have ql: "(2::rat) powi (?Q - 1) \<le> of_int q" and qu: "of_int q < (2::rat) powi ?Q"
  proof -
    from bitlen_bounds [OF q] have "(2::int) ^ nat (?Q - 1) \<le> q" "q < 2 ^ nat ?Q"
      by simp_all
    then have "(of_int ((2::int) ^ nat (?Q - 1)) :: rat) \<le> of_int q"
      "(of_int q :: rat) < of_int (2 ^ nat ?Q)"
      by (simp_all only: of_int_le_iff of_int_less_iff)
    then show "(2::rat) powi (?Q - 1) \<le> of_int q" "of_int q < (2::rat) powi ?Q"
      using Q1 by (simp_all add: power_int_nonneg_exp)
  qed
  let ?d = "?P - ?Q"
  have qpos: "(0::rat) < of_int q"
    using q by simp
  have up: "x < 2 powi (?d + 1)"
  proof -
    have "of_int p < (2::rat) powi ?P"
      by (rule pu)
    also have "\<dots> = 2 powi (?d + 1) * 2 powi (?Q - 1)"
      by (simp flip: power_int_add)
    also have "\<dots> \<le> 2 powi (?d + 1) * of_int q"
      using ql by (intro mult_left_mono) simp_all
    finally show ?thesis
      using qpos by (simp add: x pos_divide_less_eq)
  qed
  have lo: "2 powi (?d - 1) \<le> x"
  proof -
    have "2 powi (?d - 1) * of_int q \<le> 2 powi (?d - 1) * (2::rat) powi ?Q"
      using qu by (intro mult_left_mono) simp_all
    also have "\<dots> = 2 powi (?P - 1)"
      by (simp flip: power_int_add)
    also have "\<dots> \<le> of_int p"
      by (rule pl)
    finally show ?thesis
      using qpos by (simp add: x pos_le_divide_eq)
  qed
  show "2 powi ilog2 x \<le> x"
    using lo by (simp add: ilog2_def pq Let_def)
  show "x < 2 powi (ilog2 x + 1)"
    using up by (auto simp: ilog2_def pq Let_def not_le)
qed

lemma round_even_near: "\<bar>of_int (round_even q) - q\<bar> \<le> 1 / 2"
proof -
  have l: "of_int \<lfloor>q\<rfloor> \<le> q" and u: "q < of_int \<lfloor>q\<rfloor> + 1"
    by linarith+
  show ?thesis
    using l u unfolding round_even_def Let_def by (simp add: abs_le_iff)
qed

lemma round_even_of_int [simp]: "round_even (of_int k) = k"
  by (simp add: round_even_def)

lemma round_even_numeral [simp]: "round_even (numeral k) = numeral k"
  using round_even_of_int [of "numeral k"] by simp

lemma Number_value_int:
  assumes "\<bar>k\<bar> < 2 ^ 53"
  shows "Number_value (of_int k) = Finite (of_int k)"
proof (cases "k = 0")
  case True
  then show ?thesis by (simp add: Number_value_def)
next
  case False
  let ?x = "of_int k :: rat"
  let ?e = "ilog2 \<bar>?x\<bar>"
  have pos: "0 < \<bar>?x\<bar>" and one: "1 \<le> \<bar>?x\<bar>"
    using False by simp_all
  have small: "\<bar>?x\<bar> < 2 ^ 53"
  proof -
    have "(of_int \<bar>k\<bar> :: rat) < of_int (2 ^ 53)"
      using assms by (simp only: of_int_less_iff)
    then show ?thesis by simp
  qed
  have e0: "0 \<le> ?e"
  proof (rule ccontr)
    assume "\<not> 0 \<le> ?e"
    then have "?e + 1 \<le> 0" by simp
    then have "(2::rat) powi (?e + 1) \<le> 2 powi 0"
      by (intro power_int_increasing) simp_all
    with ilog2_bounds(2) [OF pos] one show False by simp
  qed
  have e52: "?e \<le> 52"
  proof (rule ccontr)
    assume "\<not> ?e \<le> 52"
    then have "53 \<le> ?e" by simp
    then have "(2::rat) powi 53 \<le> 2 powi ?e"
      by (intro power_int_increasing) simp_all
    with ilog2_bounds(1) [OF pos] small show False by simp
  qed
  have m: "max ?e (- 1022) = ?e"
    using e0 by simp
  have u: "(2::rat) powi (?e - 52) = 1 / 2 ^ nat (52 - ?e)"
  proof -
    have "(2::rat) powi (?e - 52) = 2 powi (- (52 - ?e))" by simp
    also have "\<dots> = 1 / 2 powi (52 - ?e)" by (rule power_int_minus_divide)
    also have "\<dots> = 1 / 2 ^ nat (52 - ?e)"
      using e52 by (simp add: power_int_nonneg_exp)
    finally show ?thesis .
  qed
  have q: "?x / 2 powi (?e - 52) = of_int (k * 2 ^ nat (52 - ?e))"
    by (simp add: u)
  have y: "of_int (round_even (?x / 2 powi (?e - 52))) * (2::rat) powi (?e - 52) = ?x"
    unfolding q round_even_of_int by (simp add: u)
  have big: "\<not> (2::rat) ^ 1024 \<le> \<bar>?x\<bar>"
    using small by simp
  show ?thesis
    using False big unfolding Number_value_def Let_def m y by simp
qed

lemma Number_value_near:
  assumes lo: "2 powi (- 1022) \<le> \<bar>x\<bar>" and hi: "\<bar>x\<bar> < 2 ^ 1023"
  shows "\<exists>y. Number_value x = Finite y \<and> \<bar>y - x\<bar> \<le> \<bar>x\<bar> / 2 ^ 53"
proof -
  have pos: "0 < \<bar>x\<bar>"
  proof -
    have "(0::rat) < 2 powi (- 1022)" by simp
    with lo show ?thesis by linarith
  qed
  then have nz: "x \<noteq> 0" by simp
  let ?e = "ilog2 \<bar>x\<bar>"
  have el: "- 1022 \<le> ?e"
  proof (rule ccontr)
    assume "\<not> - 1022 \<le> ?e"
    then have "?e + 1 \<le> - 1022" by simp
    then have "(2::rat) powi (?e + 1) \<le> 2 powi (- 1022)"
      by (intro power_int_increasing) simp_all
    with ilog2_bounds(2) [OF pos] lo show False by simp
  qed
  have m: "max ?e (- 1022) = ?e"
    using el by simp
  let ?u = "(2::rat) powi (?e - 52)"
  let ?n = "round_even (x / ?u)"
  let ?y = "of_int ?n * ?u"
  have upos: "0 < ?u" by simp
  have "\<bar>of_int ?n - x / ?u\<bar> \<le> 1 / 2"
    by (rule round_even_near)
  then have "\<bar>of_int ?n - x / ?u\<bar> * ?u \<le> 1 / 2 * ?u"
    using upos by (intro mult_right_mono) simp_all
  moreover have "\<bar>of_int ?n - x / ?u\<bar> * ?u = \<bar>?y - x\<bar>"
  proof -
    have "\<bar>of_int ?n - x / ?u\<bar> * ?u = \<bar>(of_int ?n - x / ?u) * ?u\<bar>"
      using upos by (simp add: abs_mult)
    also have "(of_int ?n - x / ?u) * ?u = ?y - x"
      using upos by (simp add: field_simps)
    finally show ?thesis .
  qed
  ultimately have d: "\<bar>?y - x\<bar> \<le> ?u / 2"
    by simp
  have ue: "?u / 2 = 2 powi ?e / 2 ^ 53"
  proof -
    have "(2::rat) powi ?e = 2 powi ((?e - 52) + 52)" by simp
    also have "\<dots> = ?u * 2 powi 52"
      by (subst power_int_add) simp_all
    finally show ?thesis by simp
  qed
  have "2 powi ?e / 2 ^ 53 \<le> \<bar>x\<bar> / (2 ^ 53 :: rat)"
    using ilog2_bounds(1) [OF pos] by (intro divide_right_mono) simp_all
  with d ue have near: "\<bar>?y - x\<bar> \<le> \<bar>x\<bar> / 2 ^ 53"
    by simp
  have "\<bar>?y\<bar> \<le> \<bar>x\<bar> + \<bar>x\<bar> / 2 ^ 53"
    using near by linarith
  also have "\<dots> \<le> \<bar>x\<bar> + \<bar>x\<bar>"
    using pos by (simp add: field_simps)
  also have "\<dots> < 2 ^ 1023 + (2 ^ 1023 :: rat)"
    using hi by linarith
  also have "\<dots> = 2 ^ 1024" by simp
  finally have ysmall: "\<not> (2::rat) ^ 1024 \<le> \<bar>?y\<bar>" by simp
  have xsmall: "\<not> (2::rat) ^ 1024 \<le> \<bar>x\<bar>"
  proof -
    have "(2::rat) ^ 1023 \<le> 2 ^ 1024" by simp
    with hi show ?thesis by linarith
  qed
  have "Number_value x = Finite ?y"
    using nz xsmall ysmall unfolding Number_value_def Let_def m by simp
  with near show ?thesis by blast
qed

lemma floor_third:
  fixes s :: int and t :: rat
  assumes "\<bar>t - of_int (100 * s) / 3\<bar> < 1 / 6"
  shows "\<lfloor>t + 1 / 2\<rfloor> = \<lfloor>(of_int (100 * s) / 3 :: rat) + 1 / 2\<rfloor>"
proof -
  define m where "m = (100 * s) div 3"
  define r where "r = (100 * s) mod 3"
  have r: "r = 0 \<or> r = 1 \<or> r = 2"
    unfolding r_def by presburger
  have "100 * s = 3 * m + r"
    unfolding m_def r_def by simp
  then have "(of_int (100 * s) :: rat) = of_int (3 * m + r)"
    by simp
  then have e: "(of_int (100 * s) / 3 :: rat) = of_int m + of_int r / 3"
    by simp
  let ?z = "of_int (100 * s) / 3 :: rat"
  have b: "?z - 1 / 6 < t" "t < ?z + 1 / 6"
    using assms by linarith+
  from r show ?thesis
  proof (elim disjE)
    assume "r = 0"
    with e have z: "?z = of_int m" by simp
    have "\<lfloor>t + 1 / 2\<rfloor> = m"
      by (rule floor_unique) (use b z in linarith)+
    moreover have "\<lfloor>?z + 1 / 2\<rfloor> = m"
      by (rule floor_unique) (use z in linarith)+
    ultimately show ?thesis by simp
  next
    assume "r = 1"
    with e have z: "?z = of_int m + 1 / 3" by simp
    have "\<lfloor>t + 1 / 2\<rfloor> = m"
      by (rule floor_unique) (use b z in linarith)+
    moreover have "\<lfloor>?z + 1 / 2\<rfloor> = m"
      by (rule floor_unique) (use z in linarith)+
    ultimately show ?thesis by simp
  next
    assume "r = 2"
    with e have z: "?z = of_int m + 2 / 3" by simp
    have o: "(of_int (m + 1) :: rat) = of_int m + 1" by simp
    have "\<lfloor>t + 1 / 2\<rfloor> = m + 1"
      by (rule floor_unique) (use b z o in linarith)+
    moreover have "\<lfloor>?z + 1 / 2\<rfloor> = m + 1"
      by (rule floor_unique) (use z o in linarith)+
    ultimately show ?thesis by simp
  qed
qed

lemma tiny_le: "(2::rat) powi (- 1022) \<le> 1 / 128"
proof -
  have "(2::rat) powi (- 1022) \<le> 2 powi (- 7)"
    by (intro power_int_increasing) simp_all
  also have "\<dots> \<le> 1 / 128"
    by (simp add: power_int_minus_divide)
  finally show ?thesis .
qed

lemma huge_gt: "(10::rat) ^ 15 < 2 ^ 1023"
proof -
  have "(10::rat) ^ 15 < 2 ^ 50" by simp
  also have "\<dots> \<le> 2 ^ 1023"
    by (intro power_increasing) simp_all
  finally show ?thesis .
qed

lemma score_of_integers:
  fixes a b c :: int
  assumes a: "\<bar>a\<bar> \<le> 10 ^ 12" and b: "\<bar>b\<bar> \<le> 10 ^ 12" and c: "\<bar>c\<bar> \<le> 10 ^ 12"
  shows "fdiv_pos (Math_round (fmul_pos (fdiv_pos
            (fadd (fadd (Finite (of_int a)) (Finite (of_int b))) (Finite (of_int c))) 3) 100)) 100
         = Number_value (of_int \<lfloor>(of_int (100 * (a + b + c)) / 3 :: rat) + 1 / 2\<rfloor> / 100)"
proof -
  let ?s = "a + b + c"
  have ab: "fadd (Finite (of_int a)) (Finite (of_int b)) = Finite (of_int (a + b))"
  proof -
    have "\<bar>a + b\<bar> < 2 ^ 53" using a b by simp
    from Number_value_int [OF this] show ?thesis by simp
  qed
  have sum: "fadd (Finite (of_int (a + b))) (Finite (of_int c)) = Finite (of_int ?s)"
  proof -
    have "\<bar>?s\<bar> < 2 ^ 53" using a b c by simp
    from Number_value_int [OF this] show ?thesis by simp
  qed
  show ?thesis
  proof (cases "?s = 0")
    case True
    have z: "Number_value 0 = Finite 0"
      by (simp add: Number_value_def)
    show ?thesis
      unfolding ab sum True by (simp add: z)
  next
    case False
    let ?x1 = "of_int ?s / 3 :: rat"
    have s1: "(1::rat) \<le> \<bar>of_int ?s\<bar>"
      using False by simp
    have s2: "\<bar>of_int ?s :: rat\<bar> \<le> 3 * 10 ^ 12"
    proof -
      have "\<bar>?s\<bar> \<le> 3 * 10 ^ 12" using a b c by simp
      then have "(of_int \<bar>?s\<bar> :: rat) \<le> of_int (3 * 10 ^ 12)"
        by (simp only: of_int_le_iff)
      then show ?thesis by simp
    qed
    have x1: "\<bar>?x1\<bar> = \<bar>of_int ?s\<bar> / 3"
      by simp
    have x1l: "1 / 3 \<le> \<bar>?x1\<bar>" and x1u: "\<bar>?x1\<bar> \<le> 10 ^ 12"
      using s1 s2 unfolding x1 by simp_all
    have "2 powi (- 1022) \<le> \<bar>?x1\<bar>"
      using tiny_le x1l by linarith
    moreover have "\<bar>?x1\<bar> < 2 ^ 1023"
      using huge_gt x1u by simp
    ultimately obtain y1 where y1: "Number_value ?x1 = Finite y1"
      and d1: "\<bar>y1 - ?x1\<bar> \<le> \<bar>?x1\<bar> / 2 ^ 53"
      using Number_value_near by blast
    have d1': "\<bar>y1 - ?x1\<bar> \<le> \<bar>?x1\<bar> / 9007199254740992"
      using d1 by simp
    let ?x2 = "y1 * 100"
    have y1l: "1 / 6 \<le> \<bar>y1\<bar>" and y1u: "\<bar>y1\<bar> \<le> 2 * \<bar>?x1\<bar>"
      using d1' x1l by linarith+
    have "2 powi (- 1022) \<le> \<bar>?x2\<bar>"
      using tiny_le y1l by (simp add: abs_mult)
    moreover have "\<bar>?x2\<bar> < 2 ^ 1023"
    proof -
      have "\<bar>?x2\<bar> \<le> 2 * 10 ^ 14"
        using y1u x1u by (simp add: abs_mult)
      with huge_gt show ?thesis by simp
    qed
    ultimately obtain y2 where y2: "Number_value ?x2 = Finite y2"
      and d2: "\<bar>y2 - ?x2\<bar> \<le> \<bar>?x2\<bar> / 2 ^ 53"
      using Number_value_near by blast
    have d2': "\<bar>y2 - y1 * 100\<bar> \<le> \<bar>y1\<bar> * 100 / 9007199254740992"
      using d2 by (simp add: abs_mult)
    have z: "(of_int (100 * ?s) / 3 :: rat) = 100 * ?x1"
      by simp
    have "\<bar>y2 - 100 * ?x1\<bar> \<le> 300 * \<bar>?x1\<bar> / 9007199254740992"
      using d1' d2' y1u by linarith
    also have "\<dots> < 1 / 6"
      using x1u by simp
    finally have near: "\<bar>y2 - of_int (100 * ?s) / 3\<bar> < 1 / 6"
      unfolding z .
    have fl: "\<lfloor>y2 + 1 / 2\<rfloor> = \<lfloor>(of_int (100 * ?s) / 3 :: rat) + 1 / 2\<rfloor>"
      by (rule floor_third [OF near])
    show ?thesis
      unfolding ab sum by (simp only: fdiv_pos.simps fmul_pos.simps Math_round.simps y1 y2 fl)
  qed
qed

lemma ilog2_unique:
  assumes "2 powi e \<le> x" and "x < 2 powi (e + 1)"
  shows "ilog2 x = e"
proof -
  have pos: "0 < x"
  proof -
    have "(0::rat) < 2 powi e" by simp
    with assms(1) show ?thesis by linarith
  qed
  have "\<not> ilog2 x + 1 \<le> e"
  proof
    assume "ilog2 x + 1 \<le> e"
    then have "(2::rat) powi (ilog2 x + 1) \<le> 2 powi e"
      by (intro power_int_increasing) simp_all
    with ilog2_bounds(2) [OF pos] assms(1) show False by linarith
  qed
  moreover have "\<not> e + 1 \<le> ilog2 x"
  proof
    assume "e + 1 \<le> ilog2 x"
    then have "(2::rat) powi (e + 1) \<le> 2 powi ilog2 x"
      by (intro power_int_increasing) simp_all
    with ilog2_bounds(1) [OF pos] assms(2) show False by linarith
  qed
  ultimately show ?thesis by linarith
qed

lemma Number_value_eq:
  assumes lo: "2 powi e \<le> \<bar>x\<bar>" and hi: "\<bar>x\<bar> < 2 powi (e + 1)"
      and el: "- 1022 \<le> e" and eu: "e \<le> 1023"
      and n: "round_even (x / 2 powi (e - 52)) = n"
      and y: "\<bar>of_int n * 2 powi (e - 52)\<bar> < (2::rat) ^ 1024"
  shows "Number_value x = Finite (of_int n * 2 powi (e - 52))"
proof -
  have i: "ilog2 \<bar>x\<bar> = e"
    by (rule ilog2_unique [OF lo hi])
  have "(0::rat) < 2 powi e" by simp
  with lo have "0 < \<bar>x\<bar>" by linarith
  then have nz: "x \<noteq> 0" by simp
  have "(2::rat) powi (e + 1) \<le> 2 powi 1024"
    using eu by (intro power_int_increasing) simp_all
  with hi have small: "\<not> (2::rat) ^ 1024 \<le> \<bar>x\<bar>"
    by simp
  have m: "max e (- 1022) = e"
    using el by simp
  show ?thesis
    using nz small y unfolding Number_value_def Let_def i m n by simp
qed

lemma round_even_eq:
  assumes "\<bar>q - of_int n\<bar> < 1 / 2"
  shows "round_even q = n"
proof -
  have a: "\<bar>of_int (round_even q) - q\<bar> \<le> 1 / 2"
    by (rule round_even_near)
  have "\<bar>(of_int (round_even q) :: rat) - of_int n\<bar> < 1"
    using a assms by linarith
  then have "\<bar>(of_int (round_even q - n) :: rat)\<bar> < of_int 1"
    by simp
  then have "\<bar>round_even q - n\<bar> < 1"
    by (simp only: of_int_abs [symmetric] of_int_less_iff)
  then show ?thesis by linarith
qed

text \<open>
  The number value of a rational \<open>x\<close> whose multiple \<^verbatim>\<open>x * 2^k\<close> has 53 bits before the
  point: the integer nearest to the multiple, over \<^verbatim>\<open>2^k\<close>.
\<close>

lemma Number_value_small:
  fixes x :: rat
  assumes "2 ^ 52 \<le> \<bar>x * 2 ^ k\<bar>" and "\<bar>x * 2 ^ k\<bar> < 2 ^ 53" and "k \<le> 1074"
      and "\<bar>x * 2 ^ k - of_int n\<bar> < 1 / 2"
      and "\<bar>n\<bar> \<le> 2 ^ 53"
  shows "Number_value x = Finite (of_int n / 2 ^ k)"
proof -
  let ?e = "52 - int k"
  have p: "(2::rat) powi (?e - 52) = 1 / 2 ^ k"
  proof -
    have "(2::rat) powi (?e - 52) = 2 powi (- int k)" by simp
    also have "\<dots> = 1 / 2 powi (int k)" by (rule power_int_minus_divide)
    also have "\<dots> = 1 / 2 ^ k" by simp
    finally show ?thesis .
  qed
  have pe: "(2::rat) powi ?e = 2 ^ 52 / 2 ^ k"
  proof -
    have "(2::rat) powi ?e = 2 powi (52 + (- int k))" by simp
    also have "\<dots> = 2 powi 52 * 2 powi (- int k)"
      by (rule power_int_add) simp
    also have "2 powi (- int k) = 1 / (2::rat) powi (int k)" by (rule power_int_minus_divide)
    finally show ?thesis by simp
  qed
  have pe1: "(2::rat) powi (?e + 1) = 2 ^ 53 / 2 ^ k"
  proof -
    have "(2::rat) powi (?e + 1) = 2 powi (53 + (- int k))" by simp
    also have "\<dots> = 2 powi 53 * 2 powi (- int k)"
      by (rule power_int_add) simp
    also have "2 powi (- int k) = 1 / (2::rat) powi (int k)" by (rule power_int_minus_divide)
    finally show ?thesis by simp
  qed
  have ax: "\<bar>x * 2 ^ k\<bar> = \<bar>x\<bar> * 2 ^ k"
    by (simp add: abs_mult)
  have lo: "2 powi ?e \<le> \<bar>x\<bar>"
    using assms(1) unfolding pe ax by (simp add: field_simps)
  have hi: "\<bar>x\<bar> < 2 powi (?e + 1)"
    using assms(2) unfolding pe1 ax by (simp add: field_simps)
  have q: "x / 2 powi (?e - 52) = x * 2 ^ k"
    unfolding p by simp
  have r: "round_even (x / 2 powi (?e - 52)) = n"
    unfolding q by (rule round_even_eq [OF assms(4)])
  have "\<bar>of_int n * (2::rat) powi (?e - 52)\<bar> = \<bar>of_int n\<bar> / 2 ^ k"
    unfolding p by (simp add: abs_mult)
  also have "\<dots> \<le> \<bar>of_int n\<bar>"
    by (simp add: field_simps mult_le_cancel_left1)
  also have "\<dots> \<le> 2 ^ 53"
  proof -
    have "(of_int \<bar>n\<bar> :: rat) \<le> of_int (2 ^ 53)"
      using assms(5) by (simp only: of_int_le_iff)
    then show ?thesis by simp
  qed
  also have "\<dots> < (2::rat) ^ 1024"
    by (rule power_strict_increasing) simp_all
  finally have y: "\<bar>of_int n * (2::rat) powi (?e - 52)\<bar> < 2 ^ 1024" .
  have "Number_value x = Finite (of_int n * 2 powi (?e - 52))"
    by (rule Number_value_eq [OF lo hi _ _ r y]) (use assms(3) in simp_all)
  then show ?thesis
    unfolding p by simp
qed

lemma Number_value_0 [simp]: "Number_value 0 = Finite 0"
  by (simp add: Number_value_def)

lemma Number_value_hundredth:
  fixes k :: int
  assumes "\<bar>k\<bar> \<le> 200000000000000"
  shows "\<exists>y. Number_value (of_int k / 100) = Finite y
           \<and> \<bar>y - of_int k / 100\<bar> \<le> \<bar>of_int k / 100\<bar> / 2 ^ 53"
proof (cases "k = 0")
  case True
  then show ?thesis by simp
next
  case False
  let ?x = "of_int k / 100 :: rat"
  have k1: "(1::rat) \<le> \<bar>of_int k\<bar>"
    using False by simp
  have k2: "\<bar>of_int k :: rat\<bar> \<le> 2 * 10 ^ 14"
  proof -
    have "(of_int \<bar>k\<bar> :: rat) \<le> of_int 200000000000000"
      using assms by (simp only: of_int_le_iff)
    then show ?thesis by simp
  qed
  have x: "\<bar>?x\<bar> = \<bar>of_int k\<bar> / 100"
    by simp
  have xl: "1 / 100 \<le> \<bar>?x\<bar>" and xu: "\<bar>?x\<bar> \<le> 2 * 10 ^ 12"
    using k1 k2 unfolding x by simp_all
  have "2 powi (- 1022) \<le> \<bar>?x\<bar>"
    using tiny_le xl by linarith
  moreover have "\<bar>?x\<bar> < 2 ^ 1023"
    using huge_gt xu by simp
  ultimately show ?thesis
    by (rule Number_value_near)
qed

lemma number_or_zero_case:
  "number_or_zero v = (case v of Some (JNum n) \<Rightarrow> n | _ \<Rightarrow> Finite 0)"
  by (cases v rule: number_or_zero.cases) simp_all

lemma string_or_case:
  "string_or v d = (case v of Some (JStr s) \<Rightarrow> s | _ \<Rightarrow> d)"
  by (cases "(v, d)" rule: string_or.cases) simp_all

lemma floor_numeral_div_rat:
  "\<lfloor>numeral a / numeral b :: rat\<rfloor> = numeral a div numeral b"
  using floor_divide_of_int_eq [of "numeral a" "numeral b", where ?'a = rat] by simp

section \<open>The grading tool\<close>

text \<open>
  Claim C9, as the code has it. For every argument object the grading tool returns a
  success result: \<open>ok\<close> is true; the vocabulary, grammar and fluency fields echo the
  numeric arguments, each zero when the argument is absent or not a number; the notes
  field is the \<open>notes\<close> argument when that is a string (and \<open>stub\<close> otherwise). The score
  is computed in double arithmetic, each operation rounding its result to a double: the
  sum of the three, divided by 3, times 100, rounded to an integer by \<^verbatim>\<open>Math.round\<close>,
  divided by 100. For three integers of absolute value at most \<^verbatim>\<open>10^12\<close> this is the
  double nearest to their arithmetic mean rounded to two decimal places (the integer
  nearest to a hundred times the mean, a half going up, divided by a hundred), so it
  differs from that by at most the fraction \<^verbatim>\<open>2^-53\<close> of it. The dispatcher returns the
  serialised result under the name \<open>grade_lesson\<close>.
\<close>

theorem grade_lesson_result:
  "let v = (case map_of kvs ''vocabulary_score'' of Some (JNum n) \<Rightarrow> n | _ \<Rightarrow> Finite 0);
       g = (case map_of kvs ''grammar_score'' of Some (JNum n) \<Rightarrow> n | _ \<Rightarrow> Finite 0);
       f = (case map_of kvs ''fluency_score'' of Some (JNum n) \<Rightarrow> n | _ \<Rightarrow> Finite 0);
       score = fdiv_pos (Math_round (fmul_pos (fdiv_pos (fadd (fadd v g) f) 3) 100)) 100;
       notes = (case map_of kvs ''notes'' of Some (JStr s) \<Rightarrow> s | _ \<Rightarrow> ''stub'');
       r = JObj [(''ok'', JBool True),
                 (''score'', JNum score),
                 (''vocabulary_score'', JNum v),
                 (''grammar_score'', JNum g),
                 (''fluency_score'', JNum f),
                 (''notes'', JStr notes)]
   in gradeLesson (JObj kvs) = Inr r
      \<and> executeTool rt (JStr ''grade_lesson'') (JObj kvs) sid = Inr (JSON_stringify rt r)
      \<and> (v = Finite (of_int a) \<and> g = Finite (of_int b) \<and> f = Finite (of_int c)
           \<and> \<bar>a\<bar> \<le> 10 ^ 12 \<and> \<bar>b\<bar> \<le> 10 ^ 12 \<and> \<bar>c\<bar> \<le> 10 ^ 12
         \<longrightarrow> (let mean = (of_int a + of_int b + of_int c) / 3 :: rat;
                  rounded = of_int \<lfloor>mean * 100 + 1 / 2\<rfloor> / 100
              in score = Number_value rounded
                 \<and> (\<exists>y. score = Finite y \<and> \<bar>y - rounded\<bar> \<le> \<bar>rounded\<bar> / 2 ^ 53)))"
proof -
  let ?v = "number_or_zero (map_of kvs ''vocabulary_score'')"
  let ?g = "number_or_zero (map_of kvs ''grammar_score'')"
  let ?f = "number_or_zero (map_of kvs ''fluency_score'')"
  let ?score = "fdiv_pos (Math_round (fmul_pos (fdiv_pos (fadd (fadd ?v ?g) ?f) 3) 100)) 100"
  let ?r = "JObj [(''ok'', JBool True),
                  (''score'', JNum ?score),
                  (''vocabulary_score'', JNum ?v),
                  (''grammar_score'', JNum ?g),
                  (''fluency_score'', JNum ?f),
                  (''notes'', JStr (string_or (map_of kvs ''notes'') ''stub''))]"
  have 1: "gradeLesson (JObj kvs) = Inr ?r"
    by (simp add: gradeLesson_def Let_def)
  have 2: "executeTool rt (JStr ''grade_lesson'') (JObj kvs) sid = Inr (JSON_stringify rt ?r)"
    by (simp add: executeTool_def 1)
  have 3: "?score = Number_value (of_int \<lfloor>(of_int a + of_int b + of_int c) / 3 * 100 + 1 / 2 :: rat\<rfloor> / 100)
      \<and> (\<exists>y. ?score = Finite y
            \<and> \<bar>y - of_int \<lfloor>(of_int a + of_int b + of_int c) / 3 * 100 + 1 / 2 :: rat\<rfloor> / 100\<bar>
                \<le> \<bar>of_int \<lfloor>(of_int a + of_int b + of_int c) / 3 * 100 + 1 / 2 :: rat\<rfloor> / 100\<bar> / 2 ^ 53)"
    if h: "?v = Finite (of_int a) \<and> ?g = Finite (of_int b) \<and> ?f = Finite (of_int c)
           \<and> \<bar>a\<bar> \<le> 10 ^ 12 \<and> \<bar>b\<bar> \<le> 10 ^ 12 \<and> \<bar>c\<bar> \<le> 10 ^ 12"
  proof -
    let ?m = "(of_int a + of_int b + of_int c) / 3 * 100 + 1 / 2 :: rat"
    from h have a: "\<bar>a\<bar> \<le> 10 ^ 12" and b: "\<bar>b\<bar> \<le> 10 ^ 12" and c: "\<bar>c\<bar> \<le> 10 ^ 12"
      by simp_all
    have e: "(of_int (100 * (a + b + c)) / 3 :: rat) + 1 / 2 = ?m"
      by simp
    have s: "?score = Number_value (of_int \<lfloor>?m\<rfloor> / 100)"
      using h score_of_integers [OF a b c] by (simp only: e)
    have "\<bar>a + b + c\<bar> \<le> 3 * 10 ^ 12"
      using a b c by simp
    then have "(of_int \<bar>a + b + c\<bar> :: rat) \<le> of_int (3 * 10 ^ 12)"
      by (simp only: of_int_le_iff)
    then have m: "\<bar>of_int a + of_int b + of_int c :: rat\<bar> \<le> 3000000000000"
      by simp
    have mu: "?m < 200000000000001" and ml: "- 200000000000000 \<le> ?m"
      using m by (simp_all add: abs_le_iff field_simps)
    have "\<lfloor>?m\<rfloor> \<le> 200000000000000" and "- 200000000000000 \<le> \<lfloor>?m\<rfloor>"
      using mu ml by (simp_all only: floor_le_iff le_floor_iff)
    then have "\<bar>\<lfloor>?m\<rfloor>\<bar> \<le> 200000000000000"
      by linarith
    from Number_value_hundredth [OF this] s show ?thesis
      by simp
  qed
  show ?thesis
    unfolding Let_def number_or_zero_case [symmetric] string_or_case [symmetric]
    using 1 2 3 by blast
qed

text \<open>The sub-scores 8, 7 and 9 give the score 8, with and without notes.\<close>

theorem grade_lesson_8_7_9:
  "gradeLesson
     (JObj [(''vocabulary_score'', JNum (Finite 8)), (''grammar_score'', JNum (Finite 7)),
            (''fluency_score'', JNum (Finite 9))]) =
     Inr (JObj [(''ok'', JBool True),
                (''score'', JNum (Finite 8)),
                (''vocabulary_score'', JNum (Finite 8)),
                (''grammar_score'', JNum (Finite 7)),
                (''fluency_score'', JNum (Finite 9)),
                (''notes'', JStr ''stub'')])
   \<and> executeTool rt0 (JStr ''grade_lesson'')
       (JObj [(''vocabulary_score'', JNum (Finite 8)), (''grammar_score'', JNum (Finite 7)),
              (''fluency_score'', JNum (Finite 9)), (''notes'', JStr ''good'')])
       ''a1_taxi_bogota'' =
     Inr ''{\"ok\":true,\"score\":8,\"vocabulary_score\":8,\"grammar_score\":7,\"fluency_score\":9,\"notes\":\"good\"}''"
proof -
  let ?score = "fdiv_pos (Math_round (fmul_pos (fdiv_pos
      (fadd (fadd (Finite 8) (Finite 7)) (Finite 9)) 3) 100)) 100"
  note th1 = grade_lesson_result
    [where kvs = "[(''vocabulary_score'', JNum (Finite 8)), (''grammar_score'', JNum (Finite 7)),
                   (''fluency_score'', JNum (Finite 9))]"
       and a = 8 and b = 7 and c = 9 and rt = rt0 and sid = "''a1_taxi_bogota''"]
  note th2 = grade_lesson_result
    [where kvs = "[(''vocabulary_score'', JNum (Finite 8)), (''grammar_score'', JNum (Finite 7)),
                   (''fluency_score'', JNum (Finite 9)), (''notes'', JStr ''good'')]"
       and a = 8 and b = 7 and c = 9 and rt = rt0 and sid = "''a1_taxi_bogota''"]
  have nv: "Number_value 8 = Finite 8"
    using Number_value_int [of 8] by simp
  have s: "?score = Finite 8"
    using th1 unfolding Let_def
    by (simp add: floor_numeral_div_rat nv
        del: fadd.simps fdiv_pos.simps fmul_pos.simps Math_round.simps)
  have a: "gradeLesson
     (JObj [(''vocabulary_score'', JNum (Finite 8)), (''grammar_score'', JNum (Finite 7)),
            (''fluency_score'', JNum (Finite 9))]) =
     Inr (JObj [(''ok'', JBool True),
                (''score'', JNum (Finite 8)),
                (''vocabulary_score'', JNum (Finite 8)),
                (''grammar_score'', JNum (Finite 7)),
                (''fluency_score'', JNum (Finite 9)),
                (''notes'', JStr ''stub'')])"
    using th1 [unfolded Let_def, THEN conjunct1]
    by (simp add: s del: fadd.simps fdiv_pos.simps fmul_pos.simps Math_round.simps)
  have b: "executeTool rt0 (JStr ''grade_lesson'')
       (JObj [(''vocabulary_score'', JNum (Finite 8)), (''grammar_score'', JNum (Finite 7)),
              (''fluency_score'', JNum (Finite 9)), (''notes'', JStr ''good'')])
       ''a1_taxi_bogota'' =
     Inr ''{\"ok\":true,\"score\":8,\"vocabulary_score\":8,\"grammar_score\":7,\"fluency_score\":9,\"notes\":\"good\"}''"
    using th2 [unfolded Let_def, THEN conjunct2, THEN conjunct1]
    by (simp add: s rt0_def quote_def show_nat.simps
        del: fadd.simps fdiv_pos.simps fmul_pos.simps Math_round.simps)
  show ?thesis
    by (intro conjI a b)
qed

lemma gradeLesson_single:
  "gradeLesson (JObj [(''vocabulary_score'', JNum v)]) =
     Inr (JObj [(''ok'', JBool True),
                (''score'', JNum (fdiv_pos (Math_round (fmul_pos (fdiv_pos
                     (fadd (fadd v (Finite 0)) (Finite 0)) 3) 100)) 100)),
                (''vocabulary_score'', JNum v),
                (''grammar_score'', JNum (Finite 0)),
                (''fluency_score'', JNum (Finite 0)),
                (''notes'', JStr ''stub'')])"
  by (simp add: gradeLesson_def Let_def
      del: fadd.simps fdiv_pos.simps fmul_pos.simps Math_round.simps)

text \<open>The steps of the score for the sub-scores 24.645, 0 and 0.\<close>

lemma double_24_645:
  "Number_value (6936950801034117 / 2 ^ 48) = Finite (6936950801034117 / 2 ^ 48)"
  using Number_value_small
    [where k = 48 and x = "6936950801034117 / 2 ^ 48" and n = 6936950801034117]
  by simp

lemma third_of_24_645:
  "Number_value (6936950801034117 / 2 ^ 48 / 3) = Finite (4624633867356078 / 2 ^ 49)"
  using Number_value_small
    [where k = 49 and x = "6936950801034117 / 2 ^ 48 / 3" and n = 4624633867356078]
  by simp

lemma hundredfold_of_8_215:
  "Number_value (4624633867356078 / 2 ^ 49 * 100) = Finite (1643 / 2)"
  using Number_value_small
    [where k = 43 and x = "4624633867356078 / 2 ^ 49 * 100" and n = 7225990417743872]
  by simp

lemma double_8_22: "Number_value (822 / 100) = Finite (4627448617123185 / 2 ^ 49)"
  using Number_value_small [where k = 49 and x = "822 / 100" and n = 4627448617123185]
  by simp

lemma double_8_21: "Number_value (821 / 100) = Finite (4621819117588972 / 2 ^ 49)"
  using Number_value_small [where k = 49 and x = "821 / 100" and n = 4621819117588972]
  by simp

lemma score_24_645:
  "fdiv_pos (Math_round (fmul_pos (fdiv_pos
     (fadd (fadd (Finite (6936950801034117 / 2 ^ 48)) (Finite 0)) (Finite 0)) 3) 100)) 100
   = Finite (4627448617123185 / 2 ^ 49)"
proof -
  have fl: "\<lfloor>(1643 / 2 :: rat) + 1 / 2\<rfloor> = 822"
    by simp
  show ?thesis
    by (simp only: fadd.simps fdiv_pos.simps fmul_pos.simps Math_round.simps add_0_right
        double_24_645 third_of_24_645 hundredfold_of_8_215 fl of_int_numeral double_8_22)
qed

text \<open>
  The claim as it is written gives the mean rounded to two decimal places for every
  argument object. Here the only sub-score is the double nearest to 24.645, which is a
  little less: a hundred times the mean of the three sub-scores is a little less than
  821.5, and the mean rounded to two decimal places is 8.21. In the code the product of
  the mean and 100 is rounded to the double 821.5, which \<^verbatim>\<open>Math.round\<close> takes to 822:
  the score is the double 8.22. And where the three sub-scores are the double
  \<^verbatim>\<open>2^1023\<close>, which is also their mean, the sum of the first two is beyond the largest
  double, and the score is \<open>Infinity\<close>, serialised as \<^verbatim>\<open>null\<close>.
\<close>

theorem grade_lesson_not_rounded_mean:
  "Number_value (6936950801034117 / 2 ^ 48) = Finite (6936950801034117 / 2 ^ 48)
   \<and> \<lfloor>((6936950801034117 / 2 ^ 48 :: rat) + 0 + 0) / 3 * 100 + 1 / 2\<rfloor> = 821
   \<and> Number_value (821 / 100) = Finite (4621819117588972 / 2 ^ 49)
   \<and> Number_value (822 / 100) = Finite (4627448617123185 / 2 ^ 49)
   \<and> gradeLesson near_half_scores =
     Inr (JObj [(''ok'', JBool True),
                (''score'', JNum (Finite (4627448617123185 / 2 ^ 49))),
                (''vocabulary_score'', JNum (Finite (6936950801034117 / 2 ^ 48))),
                (''grammar_score'', JNum (Finite 0)),
                (''fluency_score'', JNum (Finite 0)),
                (''notes'', JStr ''stub'')])
   \<and> gradeLesson huge_scores =
     Inr (JObj [(''ok'', JBool True),
                (''score'', JNum PosInf),
                (''vocabulary_score'', JNum (Finite (2 ^ 1023))),
                (''grammar_score'', JNum (Finite (2 ^ 1023))),
                (''fluency_score'', JNum (Finite (2 ^ 1023))),
                (''notes'', JStr ''stub'')])
   \<and> ((2 ^ 1023 + 2 ^ 1023 + 2 ^ 1023) / 3 :: rat) = 2 ^ 1023
   \<and> Number_value (2 ^ 1023) = Finite (2 ^ 1023)
   \<and> JSON_stringify rt0 (JNum PosInf) = ''null''"
proof -
  have m: "\<lfloor>((6936950801034117 / 2 ^ 48 :: rat) + 0 + 0) / 3 * 100 + 1 / 2\<rfloor> = 821"
    by (rule floor_unique) simp_all
  have n: "gradeLesson near_half_scores =
     Inr (JObj [(''ok'', JBool True),
                (''score'', JNum (Finite (4627448617123185 / 2 ^ 49))),
                (''vocabulary_score'', JNum (Finite (6936950801034117 / 2 ^ 48))),
                (''grammar_score'', JNum (Finite 0)),
                (''fluency_score'', JNum (Finite 0)),
                (''notes'', JStr ''stub'')])"
    unfolding near_half_scores_def gradeLesson_single score_24_645 by (rule refl)
  have a: "gradeLesson huge_scores =
     Inr (JObj [(''ok'', JBool True),
                (''score'', JNum PosInf),
                (''vocabulary_score'', JNum (Finite (2 ^ 1023))),
                (''grammar_score'', JNum (Finite (2 ^ 1023))),
                (''fluency_score'', JNum (Finite (2 ^ 1023))),
                (''notes'', JStr ''stub'')])"
    by (simp add: gradeLesson_def huge_scores_def Let_def Number_value_def)
  have b: "((2 ^ 1023 + 2 ^ 1023 + 2 ^ 1023) / 3 :: rat) = 2 ^ 1023"
    by simp
  have c: "Number_value (2 ^ 1023) = Finite (2 ^ 1023)"
    using Number_value_eq [of 1023 "2 ^ 1023" "2 ^ 52"] by (simp add: power_int_minus_divide)
  have d: "JSON_stringify rt0 (JNum PosInf) = ''null''"
    by (simp add: rt0_def)
  show ?thesis
    by (intro conjI double_24_645 m double_8_21 double_8_22 n a b c d)
qed

section \<open>The handshake\<close>

text \<open>
  Claim C7. On a successful upstream handshake (the upstream socket is open when its
  \<open>open\<close> listener runs) the bridge sends upstream exactly three messages, in this order:
  a \<open>session.update\<close> event whose instructions are the global tutor rules followed by
  the scenario's system prompt (joined by a blank line), with server-VAD turn detection,
  the modalities audio and text, pcm16 as input and output audio format and the
  scenario's tool schemas; a \<open>conversation.item.create\<close> event with an assistant message
  whose text is the scenario's opening line; a \<open>response.create\<close> event. The session is
  left as it is.
\<close>

theorem upstream_open_handshake:
  assumes "upstreamWs st = Some w" and "readyState w = OPEN"
  shows "onUpstreamOpen rt st sc =
    (st,
     [UpstreamSend (Text (JSON_stringify rt (JObj
        [(''type'', JStr ''session.update''),
         (''session'', JObj
            [(''instructions'', JStr (GLOBAL_TUTOR_RULES @ [CHR 0x0A, CHR 0x0A] @ system sc)),
             (''turn_detection'', JObj
                [(''type'', JStr ''server_vad''),
                 (''interrupt_response'', JBool True),
                 (''create_response'', JBool True)]),
             (''modalities'', JArr [JStr ''audio'', JStr ''text'']),
             (''input_audio_format'', JStr ''pcm16''),
             (''output_audio_format'', JStr ''pcm16''),
             (''tools'', JArr (tools sc))])]))),
      UpstreamSend (Text (JSON_stringify rt (JObj
        [(''type'', JStr ''conversation.item.create''),
         (''item'', JObj
            [(''type'', JStr ''message''),
             (''role'', JStr ''assistant''),
             (''content'', JArr
                [JObj [(''type'', JStr ''input_text''),
                       (''text'', JStr (opening_line sc))]])])]))),
      UpstreamSend (Text (JSON_stringify rt (JObj [(''type'', JStr ''response.create'')])))])"
  using assms by (simp add: onUpstreamOpen_def sendUpstream_def is_open_def)

theorem upstream_open_handshake_witness:
  "upstreamWs session0 = Some \<lparr>readyState = OPEN\<rparr>
   \<and> onUpstreamOpen rt0 session0 scenario0 =
    (session0,
     [UpstreamSend (Text (''{\"type\":\"session.update\",\"session\":{\"instructions\":''
        @ quote (GLOBAL_TUTOR_RULES @ [CHR 0x0A, CHR 0x0A] @ ''You are a taxi driver in Bogota.'')
        @ '',\"turn_detection\":{\"type\":\"server_vad\",\"interrupt_response\":true,\"create_response\":true},\"modalities\":[\"audio\",\"text\"],\"input_audio_format\":\"pcm16\",\"output_audio_format\":\"pcm16\",\"tools\":[]}}'')),
      UpstreamSend (Text ''{\"type\":\"conversation.item.create\",\"item\":{\"type\":\"message\",\"role\":\"assistant\",\"content\":[{\"type\":\"input_text\",\"text\":\"Buenas tardes. A donde vamos?\"}]}}''),
      UpstreamSend (Text ''{\"type\":\"response.create\"}'')])"
proof -
  have o: "upstreamWs session0 = Some \<lparr>readyState = OPEN\<rparr>"
    by (simp add: session0_def active_session_def)
  have r: "readyState \<lparr>readyState = OPEN\<rparr> = OPEN"
    by simp
  show ?thesis
    using o upstream_open_handshake [OF o r, of rt0 scenario0]
    apply (simp only: rt0_def scenario0_def runtime.simps scenario.simps)
    apply (simp add: quote_def del: append_assoc)
    done
qed

section \<open>The whitelist\<close>

lemma array_includes_iff:
  "array_includes xs v \<longleftrightarrow> v \<in> (\<lambda>t. Some (JStr t)) ` set xs"
  by (cases "(xs, v)" rule: array_includes.cases) auto

text \<open>
  Claim C10. Whenever the upstream connection is absent or not in the OPEN state, every
  client message is discarded without any effect: nothing is forwarded upstream, no
  error event is sent to the client, whatever the message is, and the session is
  unchanged.
\<close>

theorem client_message_discarded_unless_upstream_open:
  assumes "upstreamWs st = None \<or> (\<exists>w. upstreamWs st = Some w \<and> readyState w \<noteq> OPEN)"
  shows "handleClientMessage rt st data = (st, [], Returned)"
proof -
  from assms have "\<not> is_open (upstreamWs st)"
    by (auto simp: is_open_def)
  then show ?thesis
    by (simp add: handleClientMessage_def)
qed

theorem client_message_discarded_witness:
  "handleClientMessage rt0 (session0\<lparr>upstreamWs := None\<rparr>) (Text msg_foo)
     = (session0\<lparr>upstreamWs := None\<rparr>, [], Returned)
   \<and> handleClientMessage rt0 (session0\<lparr>upstreamWs := Some \<lparr>readyState = CLOSED\<rparr>\<rparr>)
       (Text ''not json'')
     = (session0\<lparr>upstreamWs := Some \<lparr>readyState = CLOSED\<rparr>\<rparr>, [], Returned)"
  using client_message_discarded_unless_upstream_open
      [of "session0\<lparr>upstreamWs := None\<rparr>" rt0 "Text msg_foo"]
    client_message_discarded_unless_upstream_open
      [of "session0\<lparr>upstreamWs := Some \<lparr>readyState = CLOSED\<rparr>\<rparr>" rt0 "Text ''not json''"]
  by simp

text \<open>
  Claim C1, as the code has it. While the upstream and the client connection are both
  open, take a client text message that parses to a value other than \<open>null\<close> and whose
  \<open>type\<close> is not one of the seven whitelisted strings, and can be converted to a string
  (as every type can that is absent, \<open>null\<close>, a boolean, a number or a string). The
  message is not forwarded upstream; the client is sent exactly one error event
  \<open>{type: "error", error: {message}}\<close>, whose message ends in the type as a string; and
  the session with its pending calls is unchanged.
\<close>

theorem disallowed_client_event_rejected:
  assumes up: "upstreamWs st = Some u" "readyState u = OPEN"
      and cl: "clientWs st = Some c" "readyState c = OPEN"
      and p: "JSON_parse rt s = Inr parsed"
      and nn: "parsed \<noteq> JNull"
      and d: "field parsed ''type'' \<notin> (\<lambda>t. Some (JStr t)) ` set ALLOWED_CLIENT_EVENT_TYPES"
      and ts: "toStr rt (field parsed ''type'') = Inr t"
  shows "handleClientMessage rt st (Text s) =
     (st,
      [ClientSend (Text (JSON_stringify rt (JObj
         [(''type'', JStr ''error''),
          (''error'', JObj
             [(''message'', JStr (''Event type not allowed: '' @ t))])])))],
      Returned)"
proof -
  have "\<not> array_includes ALLOWED_CLIENT_EVENT_TYPES (field parsed ''type'')"
    using d by (simp add: array_includes_iff)
  then show ?thesis
    using up cl p nn ts
    by (simp add: handleClientMessage_def sendClient_def is_open_def)
qed

theorem disallowed_client_event_rejected_witness:
  "upstreamWs session0 = Some \<lparr>readyState = OPEN\<rparr>
   \<and> clientWs session0 = Some \<lparr>readyState = OPEN\<rparr>
   \<and> JSON_parse rt0 msg_foo = Inr (JObj [(''type'', JStr ''foo'')])
   \<and> ''foo'' \<notin> set ALLOWED_CLIENT_EVENT_TYPES
   \<and> toStr rt0 (Some (JStr ''foo'')) = Inr ''foo''
   \<and> handleClientMessage rt0 session0 (Text msg_foo) =
       (session0,
        [ClientSend (Text ''{\"type\":\"error\",\"error\":{\"message\":\"Event type not allowed: foo\"}}'')],
        Returned)"
proof -
  have up: "upstreamWs session0 = Some \<lparr>readyState = OPEN\<rparr>"
    and cl: "clientWs session0 = Some \<lparr>readyState = OPEN\<rparr>"
    by (simp_all add: session0_def active_session_def)
  have r: "readyState \<lparr>readyState = OPEN\<rparr> = OPEN"
    by simp
  have p: "JSON_parse rt0 msg_foo = Inr (JObj [(''type'', JStr ''foo'')])"
    by (simp add: rt0_def JSON_parse0_def)
  have nn: "JObj [(''type'', JStr ''foo'')] \<noteq> JNull"
    by simp
  have d: "field (JObj [(''type'', JStr ''foo'')]) ''type''
      \<notin> (\<lambda>t. Some (JStr t)) ` set ALLOWED_CLIENT_EVENT_TYPES"
    by (simp add: ALLOWED_CLIENT_EVENT_TYPES_def)
  have n: "''foo'' \<notin> set ALLOWED_CLIENT_EVENT_TYPES"
    by (simp add: ALLOWED_CLIENT_EVENT_TYPES_def)
  have t: "toStr rt0 (Some (JStr ''foo'')) = Inr ''foo''"
    by simp
  have ts: "toStr rt0 (field (JObj [(''type'', JStr ''foo'')]) ''type'') = Inr ''foo''"
    by simp
  have h: "handleClientMessage rt0 session0 (Text msg_foo) =
       (session0,
        [ClientSend (Text ''{\"type\":\"error\",\"error\":{\"message\":\"Event type not allowed: foo\"}}'')],
        Returned)"
    using disallowed_client_event_rejected [OF up r cl r p nn d ts]
    by (simp add: rt0_def quote_def)
  show ?thesis
    by (intro conjI up cl p n t h)
qed

text \<open>
  The claim as it is written, for every disallowed client message, fails where the
  upstream connection is no longer open: the message of type \<open>foo\<close> gets no error event,
  though the client connection is open. And with both connections open, a message whose
  type is the object \<^verbatim>\<open>{"toString":1}\<close> gets none either: the conversion of the type to
  a string, for the message of the error event, throws a TypeError.
\<close>

theorem disallowed_client_event_unanswered:
  "JSON_parse rt0 msg_foo = Inr (JObj [(''type'', JStr ''foo'')])
   \<and> ''foo'' \<notin> set ALLOWED_CLIENT_EVENT_TYPES
   \<and> clientWs (session0\<lparr>upstreamWs := Some \<lparr>readyState = CLOSED\<rparr>\<rparr>)
       = Some \<lparr>readyState = OPEN\<rparr>
   \<and> handleClientMessage rt0 (session0\<lparr>upstreamWs := Some \<lparr>readyState = CLOSED\<rparr>\<rparr>)
         (Text msg_foo)
       = (session0\<lparr>upstreamWs := Some \<lparr>readyState = CLOSED\<rparr>\<rparr>, [], Returned)
   \<and> JSON_parse rt0 msg_tostring
       = Inr (JObj [(''type'', JObj [(''toString'', JNum (Finite 1))])])
   \<and> is_open (upstreamWs session0) \<and> is_open (clientWs session0)
   \<and> handleClientMessage rt0 session0 (Text msg_tostring) = (session0, [], Threw TypeError)"
proof -
  have a: "JSON_parse rt0 msg_foo = Inr (JObj [(''type'', JStr ''foo'')])"
    by (simp add: rt0_def JSON_parse0_def)
  have b: "''foo'' \<notin> set ALLOWED_CLIENT_EVENT_TYPES"
    by (simp add: ALLOWED_CLIENT_EVENT_TYPES_def)
  have c: "clientWs (session0\<lparr>upstreamWs := Some \<lparr>readyState = CLOSED\<rparr>\<rparr>)
       = Some \<lparr>readyState = OPEN\<rparr>"
    by (simp add: session0_def active_session_def)
  have d: "handleClientMessage rt0 (session0\<lparr>upstreamWs := Some \<lparr>readyState = CLOSED\<rparr>\<rparr>)
         (Text msg_foo)
       = (session0\<lparr>upstreamWs := Some \<lparr>readyState = CLOSED\<rparr>\<rparr>, [], Returned)"
    by (simp add: handleClientMessage_def is_open_def)
  have e: "JSON_parse rt0 msg_tostring
       = Inr (JObj [(''type'', JObj [(''toString'', JNum (Finite 1))])])"
    by (simp add: rt0_def JSON_parse0_def msgs)
  have o: "is_open (upstreamWs session0)" "is_open (clientWs session0)"
    by (simp_all add: session0_def active_session_def is_open_def)
  have f: "handleClientMessage rt0 session0 (Text msg_tostring) = (session0, [], Threw TypeError)"
    using o by (simp add: handleClientMessage_def e)
  show ?thesis
    by (intro conjI a b c d e o f)
qed

section \<open>The pending-call map\<close>

lemma Map_get_set_same: "primitive k \<Longrightarrow> Map_get (Map_set m k v) k = Some v"
  by (simp add: Map_get_def Map_set_def update_conv')

lemma Map_get_set_other:
  assumes "primitive k" and "k' \<noteq> k"
  shows "Map_get (Map_set m k' v) k = Map_get m k"
proof (cases "primitive k'")
  case True
  with assms show ?thesis
    by (simp add: Map_get_def Map_set_def update_conv')
next
  case False
  with assms show ?thesis
    by (auto simp: Map_get_def Map_set_def map_add_def split: option.splits)
qed

lemma Map_get_delete_same: "Map_get (Map_delete m k) k = None"
  by (simp add: Map_get_def Map_delete_def delete_conv')

lemma unique_call_ids_set: "unique_call_ids m \<Longrightarrow> unique_call_ids (Map_set m k v)"
  by (auto simp: unique_call_ids_def Map_set_def update_keys)

lemma unique_call_ids_delete:
  assumes "unique_call_ids m"
  shows "unique_call_ids (Map_delete m k)"
proof (cases "primitive k")
  case True
  have "filter primitive (map fst (AList.delete k m))
      = filter (\<lambda>x. k \<noteq> x) (filter primitive (map fst m))"
    by (simp add: delete_keys removeAll_filter_not_eq conj_commute)
  with assms True show ?thesis
    by (simp add: unique_call_ids_def Map_delete_def del: filter_filter)
next
  case False
  with assms show ?thesis
    by (simp add: Map_delete_def)
qed

lemma session1_eq:
  "session1 = session0\<lparr>pendingToolCalls :=
      [(JStr ''c1'', \<lparr>name = JStr ''trigger_quiz'', argFragments = [''{\"focus\":'']\<rparr>)]\<rparr>"
  by (simp add: session1_def onToolCallDelta_def delta1_def session0_def active_session_def
      Map_get_def Map_set_def)

lemma session_unnamed_eq:
  "session_unnamed = session0\<lparr>pendingToolCalls :=
      [(JStr ''c1'', \<lparr>name = JStr [], argFragments = [''{}'']\<rparr>)]\<rparr>"
  by (simp add: session_unnamed_def onToolCallDelta_def delta_unnamed_def session0_def
      active_session_def Map_get_def Map_set_def)

section \<open>The upstream relay\<close>

lemma onToolCallDelta_sockets:
  "clientWs (onToolCallDelta st ev) = clientWs st"
  "upstreamWs (onToolCallDelta st ev) = upstreamWs st"
  "scenarioId (onToolCallDelta st ev) = scenarioId st"
  by (simp_all add: onToolCallDelta_def Let_def split: option.splits)

lemma onToolCallDone_sockets:
  "clientWs (fst (onToolCallDone rt st ev)) = clientWs st"
  "upstreamWs (fst (onToolCallDone rt st ev)) = upstreamWs st"
  by (simp_all add: onToolCallDone_def Let_def split: option.splits sum.splits)

lemma onToolCallDone_no_client_send:
  "e \<in> set (fst (snd (onToolCallDone rt st ev))) \<Longrightarrow> \<not> is_client_send e"
  by (auto simp: onToolCallDone_def Let_def sendUpstream_def
      split: option.splits sum.splits if_splits)

text \<open>
  The tool dispatcher throws exactly when one of the two known tools, which read a
  property of their arguments, is given the arguments \<open>null\<close>, or when the name of an
  unknown tool cannot be converted to a string. The handling of a completion event is
  left by an exception exactly when the arguments parse and the dispatcher throws.
\<close>

lemma executeTool_throws_iff:
  "(\<exists>e. executeTool rt nm args sid = Inl e) \<longleftrightarrow>
     (if nm = JStr ''grade_lesson'' \<or> nm = JStr ''trigger_quiz'' then args = JNull
      else \<exists>e. ToString rt nm = Inl e)"
  by (auto simp: executeTool_def gradeLesson_def triggerQuiz_def Let_def split: sum.splits)

lemma onToolCallDone_throws_iff:
  "snd (snd (onToolCallDone rt st ev)) \<noteq> Returned \<longleftrightarrow>
     (\<exists>callId args e. field ev ''call_id'' = Some callId \<and> truthy (Some callId)
        \<and> try_parse rt (argsString (Map_get (pendingToolCalls st) callId) ev) = Inr args
        \<and> executeTool rt (toolName (Map_get (pendingToolCalls st) callId) ev) args
             (scenarioId st) = Inl e)"
  by (auto simp: onToolCallDone_def Let_def split: option.splits sum.splits)

text \<open>
  Claim C2, as the code has it. While the client connection is open, every text frame
  received from upstream that parses as JSON to a value other than \<open>null\<close> is relayed to
  the client as the serialisation of the parsed event (its content, not the text that
  was received), exactly once and as the last action of the handler. This holds for the
  two intercepted types as well, where the handling of a completion event returns (and
  is not left by an exception of the tool dispatcher). A text frame that does not parse
  is dropped, and a binary frame is passed on unchanged.
\<close>

theorem upstream_event_relayed:
  assumes cl: "clientWs st = Some c" "readyState c = OPEN"
      and p: "JSON_parse rt s = Inr event"
      and nn: "event \<noteq> JNull"
      and ret: "field event ''type'' = Some (JStr ''response.function_call_arguments.done'')
                \<longrightarrow> snd (snd (onToolCallDone rt st event)) = Returned"
  shows "(\<exists>st' effs.
            handleUpstreamMessage rt st (Text s) =
              (st', effs @ [ClientSend (Text (JSON_stringify rt event))], Returned)
            \<and> clientWs st' = clientWs st
            \<and> (\<forall>e \<in> set effs. \<not> is_client_send e))
         \<and> (\<forall>s' msg. JSON_parse rt s' = Inl msg
               \<longrightarrow> handleUpstreamMessage rt st (Text s') = (st, [], Returned))
         \<and> handleUpstreamMessage rt st (Binary b) = (st, [ClientSend (Binary b)], Returned)"
proof (intro conjI allI impI)
  let ?delta = "field event ''type'' = Some (JStr ''response.function_call_arguments.delta'')"
  let ?done = "field event ''type'' = Some (JStr ''response.function_call_arguments.done'')"
  have o: "is_open (clientWs st)"
    using cl by (simp add: is_open_def)
  consider (frag) ?delta | (compl) "\<not> ?delta" ?done | (other) "\<not> ?delta" "\<not> ?done"
    by blast
  then show "\<exists>st' effs.
      handleUpstreamMessage rt st (Text s) =
        (st', effs @ [ClientSend (Text (JSON_stringify rt event))], Returned)
      \<and> clientWs st' = clientWs st
      \<and> (\<forall>e \<in> set effs. \<not> is_client_send e)"
  proof cases
    case frag
    then show ?thesis
      using p nn o
      by (simp add: handleUpstreamMessage_def sendClient_def onToolCallDelta_sockets)
  next
    case compl
    obtain st1 effs out where r: "onToolCallDone rt st event = (st1, effs, out)"
      by (cases "onToolCallDone rt st event") auto
    with ret compl have out: "out = Returned"
      by simp
    have c1: "clientWs st1 = clientWs st"
      using onToolCallDone_sockets(1) [of rt st event] r by simp
    have ncs: "\<forall>e \<in> set effs. \<not> is_client_send e"
      using onToolCallDone_no_client_send [of _ rt st event] r by simp
    show ?thesis
      using p nn o compl r out c1 ncs
      by (simp add: handleUpstreamMessage_def sendClient_def)
  next
    case other
    then show ?thesis
      using p nn o
      by (simp add: handleUpstreamMessage_def sendClient_def)
  qed
next
  fix s' msg
  assume "JSON_parse rt s' = Inl msg"
  then show "handleUpstreamMessage rt st (Text s') = (st, [], Returned)"
    by (simp add: handleUpstreamMessage_def)
next
  show "handleUpstreamMessage rt st (Binary b) = (st, [ClientSend (Binary b)], Returned)"
    using cl by (simp add: handleUpstreamMessage_def)
qed

lemma done_session0:
  "onToolCallDone rt0 session0 event_done =
     (session0,
      [ExecuteTool (JStr ''trigger_quiz'') (JObj []) ''a1_taxi_bogota'',
       UpstreamSend (Text
         (''{\"type\":\"conversation.item.create\",\"item\":{\"type\":\"function_call_output\",\"call_id\":\"c1\",\"output\":''
          @ quote ''{\"ok\":true,\"quiz\":{\"lesson_id\":\"a1_taxi_bogota\",\"focus\":\"vocabulary\"}}''
          @ ''}}'')),
       UpstreamSend (Text ''{\"type\":\"response.create\"}'')],
      Returned)"
  by (simp add: onToolCallDone_def event_done_def session0_def active_session_def
      Map_get_def Map_delete_def argsString_def toolName_def try_parse_def rt0_def JSON_parse0_def
      msgs executeTool_def triggerQuiz_def
      sendUpstream_def is_open_def function_call_output_def response_create_def quote_def)

text \<open>
  A completion event that carries its arguments: the tool is dispatched, its output and
  the continuation request go upstream, and the event reaches the client last.
\<close>

theorem upstream_event_relayed_witness:
  "clientWs session0 = Some \<lparr>readyState = OPEN\<rparr>
   \<and> JSON_parse rt0 msg_done = Inr event_done
   \<and> field event_done ''type'' = Some (JStr ''response.function_call_arguments.done'')
   \<and> snd (snd (onToolCallDone rt0 session0 event_done)) = Returned
   \<and> handleUpstreamMessage rt0 session0 (Text msg_done) =
       (session0,
        [ExecuteTool (JStr ''trigger_quiz'') (JObj []) ''a1_taxi_bogota'',
         UpstreamSend (Text
           (''{\"type\":\"conversation.item.create\",\"item\":{\"type\":\"function_call_output\",\"call_id\":\"c1\",\"output\":''
            @ quote ''{\"ok\":true,\"quiz\":{\"lesson_id\":\"a1_taxi_bogota\",\"focus\":\"vocabulary\"}}''
            @ ''}}'')),
         UpstreamSend (Text ''{\"type\":\"response.create\"}'')]
        @ [ClientSend (Text msg_done)],
        Returned)"
proof -
  have cl: "clientWs session0 = Some \<lparr>readyState = OPEN\<rparr>"
    by (simp add: session0_def active_session_def)
  have r: "readyState \<lparr>readyState = OPEN\<rparr> = OPEN"
    by simp
  have p: "JSON_parse rt0 msg_done = Inr event_done"
    by (simp add: rt0_def JSON_parse0_def msgs)
  have nn: "event_done \<noteq> JNull"
    by (simp add: event_done_def)
  have t: "field event_done ''type'' = Some (JStr ''response.function_call_arguments.done'')"
    by (simp add: event_done_def)
  have d: "snd (snd (onToolCallDone rt0 session0 event_done)) = Returned"
    by (simp add: done_session0)
  have ret: "field event_done ''type'' = Some (JStr ''response.function_call_arguments.done'')
      \<longrightarrow> snd (snd (onToolCallDone rt0 session0 event_done)) = Returned"
    by (simp add: d)
  have s: "JSON_stringify rt0 event_done = msg_done"
    by (simp add: rt0_def event_done_def msg_done_def quote_def)
  from upstream_event_relayed [OF cl r p nn ret] obtain st' effs where
    h: "handleUpstreamMessage rt0 session0 (Text msg_done) =
         (st', effs @ [ClientSend (Text (JSON_stringify rt0 event_done))], Returned)"
    by blast
  have e: "handleUpstreamMessage rt0 session0 (Text msg_done) =
      (session0, fst (snd (onToolCallDone rt0 session0 event_done))
                 @ sendClient rt0 session0 event_done, Returned)"
    using p nn t by (simp add: handleUpstreamMessage_def done_session0)
  have f: "handleUpstreamMessage rt0 session0 (Text msg_done) =
       (session0,
        [ExecuteTool (JStr ''trigger_quiz'') (JObj []) ''a1_taxi_bogota'',
         UpstreamSend (Text
           (''{\"type\":\"conversation.item.create\",\"item\":{\"type\":\"function_call_output\",\"call_id\":\"c1\",\"output\":''
            @ quote ''{\"ok\":true,\"quiz\":{\"lesson_id\":\"a1_taxi_bogota\",\"focus\":\"vocabulary\"}}''
            @ ''}}'')),
         UpstreamSend (Text ''{\"type\":\"response.create\"}'')]
        @ [ClientSend (Text msg_done)],
        Returned)"
    using h cl by (simp add: e done_session0 s sendClient_def is_open_def)
  show ?thesis
    by (intro conjI cl p t d f)
qed

text \<open>
  The claim as it is written fails on a text frame that is not JSON, which never reaches
  the client, and on an event written with spaces, which reaches the client without
  them: the client does not receive exactly what was received. And the interception
  can suppress the relay: a completion event for the tool \<open>trigger_quiz\<close> whose
  arguments are the text \<^verbatim>\<open>null\<close> makes the tool read a property of \<open>null\<close>, and the
  TypeError leaves the handler before the event is relayed.
\<close>

theorem upstream_frame_not_verbatim:
  "JSON_parse rt0 ''not json'' = Inl ''Unexpected token o in JSON at position 1''
   \<and> handleUpstreamMessage rt0 session0 (Text ''not json'') = (session0, [], Returned)
   \<and> JSON_parse rt0 msg_spaced = Inr (JObj [(''type'', JStr ''foo'')])
   \<and> handleUpstreamMessage rt0 session0 (Text msg_spaced)
       = (session0, [ClientSend (Text msg_foo)], Returned)
   \<and> msg_spaced \<noteq> msg_foo
   \<and> JSON_parse rt0 msg_done_null = Inr event_done_null
   \<and> JSON_parse rt0 ''null'' = Inr JNull
   \<and> is_open (clientWs session0)
   \<and> handleUpstreamMessage rt0 session0 (Text msg_done_null)
       = (session0, [ExecuteTool (JStr ''trigger_quiz'') JNull ''a1_taxi_bogota''],
          Threw TypeError)"
proof -
  have a: "JSON_parse rt0 ''not json'' = Inl ''Unexpected token o in JSON at position 1''"
    by (simp add: rt0_def JSON_parse0_def msgs)
  have b: "handleUpstreamMessage rt0 session0 (Text ''not json'') = (session0, [], Returned)"
    by (simp add: handleUpstreamMessage_def a)
  have c: "JSON_parse rt0 msg_spaced = Inr (JObj [(''type'', JStr ''foo'')])"
    by (simp add: rt0_def JSON_parse0_def msgs)
  have o: "is_open (clientWs session0)"
    by (simp add: session0_def active_session_def is_open_def)
  have s: "JSON_stringify rt0 (JObj [(''type'', JStr ''foo'')]) = msg_foo"
    by (simp add: rt0_def msg_foo_def quote_def)
  have d: "handleUpstreamMessage rt0 session0 (Text msg_spaced)
       = (session0, [ClientSend (Text msg_foo)], Returned)"
    using o by (simp add: handleUpstreamMessage_def c sendClient_def s)
  have e: "msg_spaced \<noteq> msg_foo"
    by (simp add: msgs)
  have f: "JSON_parse rt0 msg_done_null = Inr event_done_null"
    by (simp add: rt0_def JSON_parse0_def msgs)
  have g: "JSON_parse rt0 ''null'' = Inr JNull"
    by (simp add: rt0_def JSON_parse0_def msgs)
  have t: "onToolCallDone rt0 session0 event_done_null
       = (session0, [ExecuteTool (JStr ''trigger_quiz'') JNull ''a1_taxi_bogota''],
          Threw TypeError)"
    by (simp add: onToolCallDone_def event_done_null_def Map_get_def Map_delete_def
        argsString_def toolName_def try_parse_def g executeTool_def triggerQuiz_def
        session0_def active_session_def)
  have h: "handleUpstreamMessage rt0 session0 (Text msg_done_null)
       = (session0, [ExecuteTool (JStr ''trigger_quiz'') JNull ''a1_taxi_bogota''],
          Threw TypeError)"
  proof -
    have ty: "field event_done_null ''type''
        = Some (JStr ''response.function_call_arguments.done'')"
      and nn: "event_done_null \<noteq> JNull"
      by (simp_all add: event_done_null_def)
    show ?thesis
      by (simp add: handleUpstreamMessage_def f nn ty t)
  qed
  show ?thesis
    by (intro conjI a b c d e f g o h)
qed

section \<open>Tool calls\<close>

text \<open>
  Claim C5, as the code has it. For a completion event with a call id, received while
  the upstream connection is open, whose argument string makes \<^verbatim>\<open>JSON.parse\<close> throw
  (the text is not JSON, or the argument value carried on the event cannot be converted
  to a string): the bridge sends upstream exactly two messages, in order, a
  \<open>function_call_output\<close> item for that call id whose output is the failure result
  (\<open>ok\<close> false, with a message that holds the message of the exception) and a
  \<open>response.create\<close> request. The tool dispatcher is not invoked (no \<open>ExecuteTool\<close> in
  the trace), the handler returns, and nothing of the session changes but the entry of
  the call, which is removed.
\<close>

theorem unparseable_tool_arguments:
  assumes up: "upstreamWs st = Some u" "readyState u = OPEN"
      and c: "field event ''call_id'' = Some callId" "truthy (Some callId)"
      and f: "try_parse rt (argsString (Map_get (pendingToolCalls st) callId) event) = Inl msg"
  shows "onToolCallDone rt st event =
     (st\<lparr>pendingToolCalls := Map_delete (pendingToolCalls st) callId\<rparr>,
      [UpstreamSend (Text (JSON_stringify rt (JObj
         [(''type'', JStr ''conversation.item.create''),
          (''item'', JObj
             [(''type'', JStr ''function_call_output''),
              (''call_id'', callId),
              (''output'', JStr (JSON_stringify rt (JObj
                 [(''ok'', JBool False),
                  (''error'', JStr (''Failed to parse tool arguments: '' @ msg))])))])]))),
       UpstreamSend (Text (JSON_stringify rt (JObj [(''type'', JStr ''response.create'')])))],
      Returned)"
  using up c f
  by (simp add: onToolCallDone_def Let_def sendUpstream_def is_open_def
      function_call_output_def response_create_def)

text \<open>The call \<open>c1\<close> is completed after its first fragment only.\<close>

theorem unparseable_tool_arguments_witness:
  "upstreamWs session1 = Some \<lparr>readyState = OPEN\<rparr>
   \<and> field event_done ''call_id'' = Some (JStr ''c1'')
   \<and> argsString (Map_get (pendingToolCalls session1) (JStr ''c1'')) event_done
       = JStr ''{\"focus\":''
   \<and> JSON_parse rt0 ''{\"focus\":'' = Inl ''Unexpected end of JSON input''
   \<and> onToolCallDone rt0 session1 event_done =
       (session0,
        [UpstreamSend (Text
           (''{\"type\":\"conversation.item.create\",\"item\":{\"type\":\"function_call_output\",\"call_id\":\"c1\",\"output\":''
            @ quote ''{\"ok\":false,\"error\":\"Failed to parse tool arguments: Unexpected end of JSON input\"}''
            @ ''}}'')),
         UpstreamSend (Text ''{\"type\":\"response.create\"}'')],
        Returned)"
proof -
  have up: "upstreamWs session1 = Some \<lparr>readyState = OPEN\<rparr>"
    by (simp add: session1_eq session0_def active_session_def)
  have r: "readyState \<lparr>readyState = OPEN\<rparr> = OPEN"
    by simp
  have c: "field event_done ''call_id'' = Some (JStr ''c1'')"
    by (simp add: event_done_def)
  have t: "truthy (Some (JStr ''c1''))"
    by simp
  have a: "argsString (Map_get (pendingToolCalls session1) (JStr ''c1'')) event_done
      = JStr ''{\"focus\":''"
    by (simp add: session1_eq Map_get_def argsString_def)
  have p: "JSON_parse rt0 ''{\"focus\":'' = Inl ''Unexpected end of JSON input''"
    by (simp add: rt0_def JSON_parse0_def msgs)
  have f: "try_parse rt0
      (argsString (Map_get (pendingToolCalls session1) (JStr ''c1'')) event_done)
      = Inl ''Unexpected end of JSON input''"
    by (simp add: a p try_parse_def)
  have d: "session1\<lparr>pendingToolCalls := Map_delete (pendingToolCalls session1) (JStr ''c1'')\<rparr>
      = session0"
    by (simp add: session1_eq Map_delete_def session0_def active_session_def)
  show ?thesis
    using up c a p unparseable_tool_arguments [OF up r c t f]
    by (simp add: d rt0_def quote_def)
qed

lemma session_five_eq:
  "session_five = session0\<lparr>pendingToolCalls :=
      [(JStr ''c1'', \<lparr>name = JStr ''trigger_quiz'', argFragments = [''5'']\<rparr>)]\<rparr>"
  by (simp add: session_five_def onToolCallDelta_def delta_five_def session0_def
      active_session_def Map_get_def Map_set_def)

text \<open>
  The claim as it is written speaks of an argument string that fails to parse as a
  structured object. Here the accumulated argument string of the call \<open>c1\<close> is the text
  \<^verbatim>\<open>5\<close>, which parses, to the number 5, and not to an object: no failure result is
  sent; the tool dispatcher is invoked with the number as arguments, and its success
  result goes upstream.
\<close>

theorem non_object_arguments_dispatched:
  "is_open (upstreamWs session_five)
   \<and> field event_done ''call_id'' = Some (JStr ''c1'')
   \<and> argsString (Map_get (pendingToolCalls session_five) (JStr ''c1'')) event_done = JStr ''5''
   \<and> JSON_parse rt0 ''5'' = Inr (JNum (Finite 5))
   \<and> onToolCallDone rt0 session_five event_done =
       (session0,
        [ExecuteTool (JStr ''trigger_quiz'') (JNum (Finite 5)) ''a1_taxi_bogota'',
         UpstreamSend (Text
           (''{\"type\":\"conversation.item.create\",\"item\":{\"type\":\"function_call_output\",\"call_id\":\"c1\",\"output\":''
            @ quote ''{\"ok\":true,\"quiz\":{\"lesson_id\":\"a1_taxi_bogota\",\"focus\":\"vocabulary\"}}''
            @ ''}}'')),
         UpstreamSend (Text ''{\"type\":\"response.create\"}'')],
        Returned)"
proof -
  have o: "is_open (upstreamWs session_five)"
    by (simp add: session_five_eq session0_def active_session_def is_open_def)
  have c: "field event_done ''call_id'' = Some (JStr ''c1'')"
    by (simp add: event_done_def)
  have a: "argsString (Map_get (pendingToolCalls session_five) (JStr ''c1'')) event_done
      = JStr ''5''"
    by (simp add: session_five_eq Map_get_def argsString_def)
  have p: "JSON_parse rt0 ''5'' = Inr (JNum (Finite 5))"
    by (simp add: rt0_def JSON_parse0_def msgs)
  have d: "onToolCallDone rt0 session_five event_done =
       (session0,
        [ExecuteTool (JStr ''trigger_quiz'') (JNum (Finite 5)) ''a1_taxi_bogota'',
         UpstreamSend (Text
           (''{\"type\":\"conversation.item.create\",\"item\":{\"type\":\"function_call_output\",\"call_id\":\"c1\",\"output\":''
            @ quote ''{\"ok\":true,\"quiz\":{\"lesson_id\":\"a1_taxi_bogota\",\"focus\":\"vocabulary\"}}''
            @ ''}}'')),
         UpstreamSend (Text ''{\"type\":\"response.create\"}'')],
        Returned)"
    by (simp add: onToolCallDone_def event_done_def session_five_eq session0_def
        active_session_def Map_get_def Map_delete_def argsString_def toolName_def try_parse_def
        rt0_def JSON_parse0_def msgs executeTool_def triggerQuiz_def
        sendUpstream_def is_open_def function_call_output_def response_create_def quote_def)
  show ?thesis
    by (intro conjI o c a p d)
qed

subsection \<open>Accumulation\<close>

lemma onToolCallDelta_fragment:
  assumes "truthy (Some k)" and "primitive k" and "fragment_for k ev"
  shows "\<exists>e. Map_get (pendingToolCalls (onToolCallDelta st ev)) k = Some e
           \<and> argFragments e = fragments st k @ [string_or (field ev ''delta'') []]"
proof -
  from assms(3) obtain d where d: "field ev ''delta'' = Some (JStr d)"
    and c: "field ev ''call_id'' = Some k"
    by (auto simp: fragment_for_def elim: as_string.elims)
  show ?thesis
    using assms(1,2) c d
    by (simp add: onToolCallDelta_def Let_def Map_get_set_same fragments_def
        split: option.splits)
qed

lemma onToolCallDelta_other:
  assumes "primitive k" and "\<not> fragment_for k ev"
  shows "Map_get (pendingToolCalls (onToolCallDelta st ev)) k = Map_get (pendingToolCalls st) k"
  using assms
  by (auto simp: onToolCallDelta_def Let_def fragment_for_def Map_get_set_other
      split: option.splits)

lemma fragments_foldl:
  assumes "truthy (Some k)" and "primitive k"
  shows "fragments (foldl onToolCallDelta st evs) k
     = fragments st k
       @ map (\<lambda>ev. string_or (field ev ''delta'') []) (filter (fragment_for k) evs)"
proof (induction evs arbitrary: st)
  case Nil
  show ?case by simp
next
  case (Cons ev evs)
  show ?case
  proof (cases "fragment_for k ev")
    case True
    from onToolCallDelta_fragment [OF assms True, of st]
    have "fragments (onToolCallDelta st ev) k
        = fragments st k @ [string_or (field ev ''delta'') []]"
      by (auto simp: fragments_def)
    with True Cons.IH [of "onToolCallDelta st ev"] show ?thesis
      by simp
  next
    case False
    from onToolCallDelta_other [OF assms(2) False, of st]
    have "fragments (onToolCallDelta st ev) k = fragments st k"
      by (simp add: fragments_def)
    with False Cons.IH [of "onToolCallDelta st ev"] show ?thesis
      by simp
  qed
qed

lemma entry_foldl:
  assumes "truthy (Some k)" and "primitive k" and "filter (fragment_for k) evs \<noteq> []"
  shows "Map_get (pendingToolCalls (foldl onToolCallDelta st evs)) k \<noteq> None"
proof -
  have "fragments (foldl onToolCallDelta st evs) k \<noteq> []"
    using assms by (simp add: fragments_foldl)
  then show ?thesis
    by (auto simp: fragments_def split: option.splits)
qed

lemma onToolCallDone_entry_present:
  assumes "field ev ''call_id'' = Some k" and "field ev' ''call_id'' = Some k"
      and "field ev' ''name'' = field ev ''name''"
      and "Map_get (pendingToolCalls st) k \<noteq> None"
  shows "onToolCallDone rt st ev' = onToolCallDone rt st ev"
proof -
  from assms(4) obtain e where e: "Map_get (pendingToolCalls st) k = Some e"
    by auto
  have a: "argsString (Some e) ev' = argsString (Some e) ev"
    by (simp add: argsString_def)
  have t: "toolName (Some e) ev' = toolName (Some e) ev"
    using assms(3) by (simp add: toolName_def)
  show ?thesis
    using assms(1,2) by (simp add: onToolCallDone_def Let_def e a t cong: sum.case_cong)
qed

lemma foldl_onToolCallDelta_upstreamWs:
  "upstreamWs (foldl onToolCallDelta st evs) = upstreamWs st"
  by (induction evs arbitrary: st) (simp_all add: onToolCallDelta_sockets)

lemma foldl_onToolCallDelta_scenarioId:
  "scenarioId (foldl onToolCallDelta st evs) = scenarioId st"
  by (induction evs arbitrary: st) (simp_all add: onToolCallDelta_sockets)

lemma session3_eq:
  "session3 = session0\<lparr>pendingToolCalls :=
      [(JStr ''c1'', \<lparr>name = JStr ''trigger_quiz'',
                      argFragments = [''{\"focus\":'', ''\"verbs\"}'']\<rparr>),
       (JStr ''c2'', \<lparr>name = JStr ''grade_lesson'', argFragments = [''{}'']\<rparr>)]\<rparr>"
  by (simp add: session3_def onToolCallDelta_def delta1_def delta2_def delta_other_def
      session0_def active_session_def Map_get_def Map_set_def)

text \<open>
  Claim C3. Take a non-empty call id with no pending entry, and any sequence of events
  handled as fragment events, among them at least one fragment of that call (an event
  with that call id and a string delta; the others belong to other calls or are
  ignored). At a completion event for that id, the argument string is the concatenation
  of the deltas of the call's fragments in their arrival order, and this is the string
  that the completion handler parses: where it does not parse, the failure result with
  the parser's message goes upstream, followed by the continuation request; where it
  parses, the tool dispatcher is called with the parsed value. An argument string
  carried on the completion event is ignored: two completion events for the id that
  agree on the tool name are handled alike, whatever else they carry.
\<close>

theorem fragments_concatenated:
  assumes id: "cid \<noteq> []"
      and fresh: "Map_get (pendingToolCalls st) (JStr cid) = None"
      and some: "filter (fragment_for (JStr cid)) evs \<noteq> []"
      and dn: "field done_ev ''call_id'' = Some (JStr cid)"
  shows "let st' = foldl onToolCallDelta st evs;
             entry = Map_get (pendingToolCalls st') (JStr cid);
             joined = concat (map (\<lambda>ev. string_or (field ev ''delta'') [])
                                  (filter (fragment_for (JStr cid)) evs))
         in argsString entry done_ev = JStr joined
            \<and> (\<forall>msg. JSON_parse rt joined = Inl msg \<longrightarrow>
                  fst (snd (onToolCallDone rt st' done_ev)) =
                    sendUpstream rt st
                      (function_call_output (JStr cid)
                         (JSON_stringify rt (JObj
                            [(''ok'', JBool False),
                             (''error'', JStr (''Failed to parse tool arguments: '' @ msg))])))
                    @ sendUpstream rt st response_create)
            \<and> (\<forall>args. JSON_parse rt joined = Inr args \<longrightarrow>
                  (\<exists>rest. fst (snd (onToolCallDone rt st' done_ev)) =
                     ExecuteTool (toolName entry done_ev) args (scenarioId st) # rest))
            \<and> (\<forall>ev'. field ev' ''call_id'' = Some (JStr cid)
                      \<and> field ev' ''name'' = field done_ev ''name''
                  \<longrightarrow> onToolCallDone rt st' ev' = onToolCallDone rt st' done_ev)"
proof -
  let ?st = "foldl onToolCallDelta st evs"
  let ?joined = "concat (map (\<lambda>ev. string_or (field ev ''delta'') [])
      (filter (fragment_for (JStr cid)) evs))"
  have t: "truthy (Some (JStr cid))" and pr: "primitive (JStr cid)"
    using id by simp_all
  have e: "Map_get (pendingToolCalls ?st) (JStr cid) \<noteq> None"
    by (rule entry_foldl [OF t pr some])
  have "fragments st (JStr cid) = []"
    using fresh by (simp add: fragments_def)
  then have f: "fragments ?st (JStr cid)
      = map (\<lambda>ev. string_or (field ev ''delta'') []) (filter (fragment_for (JStr cid)) evs)"
    by (simp add: fragments_foldl [OF t pr])
  have "argsString (Map_get (pendingToolCalls ?st) (JStr cid)) done_ev
      = JStr (concat (fragments ?st (JStr cid)))"
    using e by (auto simp: argsString_def fragments_def)
  then have a: "argsString (Map_get (pendingToolCalls ?st) (JStr cid)) done_ev = JStr ?joined"
    by (simp only: f)
  have p: "try_parse rt (argsString (Map_get (pendingToolCalls ?st) (JStr cid)) done_ev)
      = JSON_parse rt ?joined"
    by (simp add: a try_parse_def)
  have b: "fst (snd (onToolCallDone rt ?st done_ev)) =
      sendUpstream rt st
        (function_call_output (JStr cid)
           (JSON_stringify rt (JObj
              [(''ok'', JBool False),
               (''error'', JStr (''Failed to parse tool arguments: '' @ msg))])))
      @ sendUpstream rt st response_create"
    if "JSON_parse rt ?joined = Inl msg" for msg
    using that dn id p
    by (simp add: onToolCallDone_def Let_def sendUpstream_def foldl_onToolCallDelta_upstreamWs)
  have c: "\<exists>rest. fst (snd (onToolCallDone rt ?st done_ev)) =
      ExecuteTool (toolName (Map_get (pendingToolCalls ?st) (JStr cid)) done_ev) args
        (scenarioId st) # rest"
    if "JSON_parse rt ?joined = Inr args" for args
    using that dn id p
    by (simp add: onToolCallDone_def Let_def foldl_onToolCallDelta_scenarioId
        split: sum.splits)
  have d: "onToolCallDone rt ?st ev' = onToolCallDone rt ?st done_ev"
    if "field ev' ''call_id'' = Some (JStr cid) \<and> field ev' ''name'' = field done_ev ''name''"
    for ev'
    using that onToolCallDone_entry_present [OF dn _ _ e] by simp
  show ?thesis
    unfolding Let_def using a b c d by blast
qed

text \<open>
  Two fragments of the call \<open>c1\<close> with a fragment of \<open>c2\<close> between them; the completion
  event carries the arguments \<open>{}\<close>, which are not used: the quiz is triggered with the
  focus that the fragments give. And the call completed after its first fragment only:
  the fragment does not parse.
\<close>

theorem fragments_concatenated_witness:
  "Map_get (pendingToolCalls session0) (JStr ''c1'') = None
   \<and> filter (fragment_for (JStr ''c1'')) [delta1, delta_other, delta2] = [delta1, delta2]
   \<and> field event_done ''call_id'' = Some (JStr ''c1'')
   \<and> field event_done ''arguments'' = Some (JStr ''{}'')
   \<and> argsString (Map_get (pendingToolCalls session3) (JStr ''c1'')) event_done
       = JStr ''{\"focus\":\"verbs\"}''
   \<and> JSON_parse rt0 ''{\"focus\":\"verbs\"}'' = Inr (JObj [(''focus'', JStr ''verbs'')])
   \<and> (\<exists>rest. fst (snd (onToolCallDone rt0 session3 event_done)) =
         ExecuteTool (JStr ''trigger_quiz'') (JObj [(''focus'', JStr ''verbs'')])
           ''a1_taxi_bogota'' # rest)
   \<and> onToolCallDone rt0 session3 event_done =
       (session0\<lparr>pendingToolCalls :=
          [(JStr ''c2'', \<lparr>name = JStr ''grade_lesson'', argFragments = [''{}'']\<rparr>)]\<rparr>,
        [ExecuteTool (JStr ''trigger_quiz'') (JObj [(''focus'', JStr ''verbs'')])
           ''a1_taxi_bogota'',
         UpstreamSend (Text
           (''{\"type\":\"conversation.item.create\",\"item\":{\"type\":\"function_call_output\",\"call_id\":\"c1\",\"output\":''
            @ quote ''{\"ok\":true,\"quiz\":{\"lesson_id\":\"a1_taxi_bogota\",\"focus\":\"verbs\"}}''
            @ ''}}'')),
         UpstreamSend (Text ''{\"type\":\"response.create\"}'')],
        Returned)
   \<and> filter (fragment_for (JStr ''c1'')) [delta1] = [delta1]
   \<and> JSON_parse rt0 ''{\"focus\":'' = Inl ''Unexpected end of JSON input''
   \<and> fst (snd (onToolCallDone rt0 session1 event_done)) =
        [UpstreamSend (Text
           (''{\"type\":\"conversation.item.create\",\"item\":{\"type\":\"function_call_output\",\"call_id\":\"c1\",\"output\":''
            @ quote ''{\"ok\":false,\"error\":\"Failed to parse tool arguments: Unexpected end of JSON input\"}''
            @ ''}}'')),
         UpstreamSend (Text ''{\"type\":\"response.create\"}'')]"
proof -
  have id: "''c1'' \<noteq> []"
    by simp
  have fresh: "Map_get (pendingToolCalls session0) (JStr ''c1'') = None"
    by (simp add: session0_def active_session_def Map_get_def)
  have fl: "filter (fragment_for (JStr ''c1'')) [delta1, delta_other, delta2] = [delta1, delta2]"
    by (simp add: fragment_for_def delta1_def delta2_def delta_other_def)
  have some: "filter (fragment_for (JStr ''c1'')) [delta1, delta_other, delta2] \<noteq> []"
    unfolding fl by simp
  have fl1: "filter (fragment_for (JStr ''c1'')) [delta1] = [delta1]"
    by (simp add: fragment_for_def delta1_def)
  have some1: "filter (fragment_for (JStr ''c1'')) [delta1] \<noteq> []"
    unfolding fl1 by simp
  have dn: "field event_done ''call_id'' = Some (JStr ''c1'')"
    by (simp add: event_done_def)
  have ar: "field event_done ''arguments'' = Some (JStr ''{}'')"
    by (simp add: event_done_def)
  have ds: "concat (map (\<lambda>ev. string_or (field ev ''delta'') []) [delta1, delta2])
      = ''{\"focus\":\"verbs\"}''"
    by (simp add: delta1_def delta2_def)
  have ds1: "concat (map (\<lambda>ev. string_or (field ev ''delta'') []) [delta1]) = ''{\"focus\":''"
    by (simp add: delta1_def)
  have p: "JSON_parse rt0 ''{\"focus\":\"verbs\"}'' = Inr (JObj [(''focus'', JStr ''verbs'')])"
    by (simp add: rt0_def JSON_parse0_def msgs)
  have p1: "JSON_parse rt0 ''{\"focus\":'' = Inl ''Unexpected end of JSON input''"
    by (simp add: rt0_def JSON_parse0_def msgs)
  have tn: "toolName (Map_get (pendingToolCalls session3) (JStr ''c1'')) event_done
      = JStr ''trigger_quiz''"
    by (simp add: session3_eq Map_get_def toolName_def)
  have sid: "scenarioId session0 = ''a1_taxi_bogota''"
    by (simp add: session0_def active_session_def)
  note th = fragments_concatenated [OF id fresh some dn, of rt0, unfolded Let_def fl ds,
      folded session3_def]
  from th have r: "argsString (Map_get (pendingToolCalls session3) (JStr ''c1'')) event_done
      = JStr ''{\"focus\":\"verbs\"}''"
    by (rule conjunct1)
  from th p have "\<exists>rest. fst (snd (onToolCallDone rt0 session3 event_done)) =
      ExecuteTool (toolName (Map_get (pendingToolCalls session3) (JStr ''c1'')) event_done)
        (JObj [(''focus'', JStr ''verbs'')]) (scenarioId session0) # rest"
    by blast
  then have x: "\<exists>rest. fst (snd (onToolCallDone rt0 session3 event_done)) =
      ExecuteTool (JStr ''trigger_quiz'') (JObj [(''focus'', JStr ''verbs'')])
        ''a1_taxi_bogota'' # rest"
    by (simp only: tn sid)
  have full: "onToolCallDone rt0 session3 event_done =
       (session0\<lparr>pendingToolCalls :=
          [(JStr ''c2'', \<lparr>name = JStr ''grade_lesson'', argFragments = [''{}'']\<rparr>)]\<rparr>,
        [ExecuteTool (JStr ''trigger_quiz'') (JObj [(''focus'', JStr ''verbs'')])
           ''a1_taxi_bogota'',
         UpstreamSend (Text
           (''{\"type\":\"conversation.item.create\",\"item\":{\"type\":\"function_call_output\",\"call_id\":\"c1\",\"output\":''
            @ quote ''{\"ok\":true,\"quiz\":{\"lesson_id\":\"a1_taxi_bogota\",\"focus\":\"verbs\"}}''
            @ ''}}'')),
         UpstreamSend (Text ''{\"type\":\"response.create\"}'')],
        Returned)"
    by (simp add: onToolCallDone_def event_done_def session3_eq session0_def
        active_session_def Map_get_def Map_delete_def argsString_def toolName_def try_parse_def
        rt0_def JSON_parse0_def msgs executeTool_def triggerQuiz_def
        sendUpstream_def is_open_def function_call_output_def response_create_def quote_def)
  note th1 = fragments_concatenated [OF id fresh some1 dn, of rt0, unfolded Let_def fl1 ds1]
  have s1: "foldl onToolCallDelta session0 [delta1] = session1"
    by (simp add: session1_def)
  from th1 p1 have "fst (snd (onToolCallDone rt0 (foldl onToolCallDelta session0 [delta1])
        event_done)) =
      sendUpstream rt0 session0
        (function_call_output (JStr ''c1'')
           (JSON_stringify rt0 (JObj
              [(''ok'', JBool False),
               (''error'', JStr (''Failed to parse tool arguments: ''
                  @ ''Unexpected end of JSON input''))])))
      @ sendUpstream rt0 session0 response_create"
    by blast
  then have y: "fst (snd (onToolCallDone rt0 session1 event_done)) =
        [UpstreamSend (Text
           (''{\"type\":\"conversation.item.create\",\"item\":{\"type\":\"function_call_output\",\"call_id\":\"c1\",\"output\":''
            @ quote ''{\"ok\":false,\"error\":\"Failed to parse tool arguments: Unexpected end of JSON input\"}''
            @ ''}}'')),
         UpstreamSend (Text ''{\"type\":\"response.create\"}'')]"
    unfolding s1
    by (simp add: sendUpstream_def is_open_def session0_def active_session_def
        function_call_output_def response_create_def rt0_def quote_def)
  show ?thesis
    by (intro conjI fresh fl dn ar r p x full fl1 p1 y)
qed

subsection \<open>The life of an entry\<close>

lemma unique_call_ids_onToolCallDelta:
  "unique_call_ids (pendingToolCalls st)
   \<Longrightarrow> unique_call_ids (pendingToolCalls (onToolCallDelta st ev))"
  by (simp add: onToolCallDelta_def Let_def unique_call_ids_set split: option.splits)

lemma pending_onToolCallDone:
  "pendingToolCalls (fst (onToolCallDone rt st ev)) =
     (case field ev ''call_id'' of
        None \<Rightarrow> pendingToolCalls st
      | Some k \<Rightarrow> if truthy (Some k) then Map_delete (pendingToolCalls st) k
                  else pendingToolCalls st)"
  by (simp add: onToolCallDone_def Let_def split: option.splits sum.splits)

lemma unique_call_ids_onToolCallDone:
  "unique_call_ids (pendingToolCalls st)
   \<Longrightarrow> unique_call_ids (pendingToolCalls (fst (onToolCallDone rt st ev)))"
  by (simp add: pending_onToolCallDone unique_call_ids_delete split: option.splits)

lemma pending_handleUpstreamMessage:
  "pendingToolCalls (fst (handleUpstreamMessage rt st data)) = pendingToolCalls st
   \<or> (\<exists>ev. pendingToolCalls (fst (handleUpstreamMessage rt st data))
              = pendingToolCalls (onToolCallDelta st ev))
   \<or> (\<exists>ev. pendingToolCalls (fst (handleUpstreamMessage rt st data))
              = pendingToolCalls (fst (onToolCallDone rt st ev)))"
proof (cases data)
  case (Binary b)
  then show ?thesis
    by (simp add: handleUpstreamMessage_def)
next
  case (Text s)
  show ?thesis
  proof (cases "JSON_parse rt s")
    case (Inl msg)
    with Text show ?thesis
      by (simp add: handleUpstreamMessage_def)
  next
    case (Inr event)
    obtain st1 effs out where r: "onToolCallDone rt st event = (st1, effs, out)"
      by (cases "onToolCallDone rt st event") auto
    have "pendingToolCalls (fst (handleUpstreamMessage rt st data)) = pendingToolCalls st
      \<or> pendingToolCalls (fst (handleUpstreamMessage rt st data))
            = pendingToolCalls (onToolCallDelta st event)
      \<or> pendingToolCalls (fst (handleUpstreamMessage rt st data))
            = pendingToolCalls (fst (onToolCallDone rt st event))"
      using Text Inr r
      by (cases out) (simp_all add: handleUpstreamMessage_def)
    then show ?thesis
      by blast
  qed
qed

lemma unique_call_ids_step:
  assumes "unique_call_ids (pendingToolCalls st)"
  shows "unique_call_ids (pendingToolCalls (step rt st i))"
proof (cases i)
  case (ClientMessage data)
  have "fst (handleClientMessage rt st data) = st"
    by (simp add: handleClientMessage_def Let_def split: frame.splits sum.splits)
  with assms ClientMessage show ?thesis
    by simp
next
  case ClientClosed
  then show ?thesis
    by (simp add: onClientClose_def cleanup_def unique_call_ids_def)
next
  case ClientErrored
  then show ?thesis
    by (simp add: onClientError_def cleanup_def unique_call_ids_def)
next
  case (UpstreamMessage data)
  with assms pending_handleUpstreamMessage [of rt st data] show ?thesis
    by (auto simp: unique_call_ids_onToolCallDelta unique_call_ids_onToolCallDone)
next
  case (UpstreamClosed code reason)
  with assms show ?thesis
    by (simp add: onUpstreamClose_def)
next
  case UpstreamErrored
  with assms show ?thesis
    by (simp add: onUpstreamError_def)
qed

lemma unique_call_ids_run:
  "unique_call_ids (pendingToolCalls st)
   \<Longrightarrow> unique_call_ids (pendingToolCalls (run rt st ins))"
  unfolding run_def
  by (induction ins arbitrary: st) (simp_all add: unique_call_ids_step)

text \<open>
  Claim C4. After a completion event for a non-empty call id is processed, the
  pending-call map has no entry for the id, whatever the runtime makes of the
  arguments (they parse or not, the tool returns or throws). A later fragment event with
  the same id then creates a fresh entry, which holds the new delta alone and the name
  of the new event. And in every state that an active session reaches, whatever events
  arrive, no two entries share a call id.
\<close>

theorem completed_call_removed:
  assumes dn: "field done_ev ''call_id'' = Some (JStr cid)"
      and id: "cid \<noteq> []"
      and fr: "field frag ''call_id'' = Some (JStr cid)" "field frag ''delta'' = Some (JStr d)"
  shows "Map_get (pendingToolCalls (fst (onToolCallDone rt st done_ev))) (JStr cid) = None
       \<and> Map_get (pendingToolCalls (onToolCallDelta (fst (onToolCallDone rt st done_ev)) frag))
             (JStr cid)
           = Some \<lparr>name = or_else (field frag ''name'') (JStr []), argFragments = [d]\<rparr>
       \<and> unique_call_ids (pendingToolCalls (run rt (active_session sid uid) ins))"
proof -
  let ?st = "fst (onToolCallDone rt st done_ev)"
  have a: "Map_get (pendingToolCalls ?st) (JStr cid) = None"
    using dn id by (simp add: pending_onToolCallDone Map_get_delete_same)
  have n: "(case as_string (field frag ''name'') of
              None \<Rightarrow> \<lparr>name = or_else (field frag ''name'') (JStr []), argFragments = []\<rparr>
            | Some n \<Rightarrow>
                if n \<noteq> []
                then \<lparr>name = or_else (field frag ''name'') (JStr []), argFragments = []\<rparr>
                     \<lparr>name := JStr n\<rparr>
                else \<lparr>name = or_else (field frag ''name'') (JStr []), argFragments = []\<rparr>)
           = \<lparr>name = or_else (field frag ''name'') (JStr []), argFragments = []\<rparr>"
    by (cases "field frag ''name''" rule: as_string.cases) auto
  have b: "Map_get (pendingToolCalls (onToolCallDelta ?st frag)) (JStr cid)
           = Some \<lparr>name = or_else (field frag ''name'') (JStr []), argFragments = [d]\<rparr>"
    using id fr a by (simp add: onToolCallDelta_def Let_def Map_get_set_same n)
  have c: "unique_call_ids (pendingToolCalls (run rt (active_session sid uid) ins))"
    by (rule unique_call_ids_run) (simp add: active_session_def unique_call_ids_def)
  show ?thesis
    by (intro conjI a b c)
qed

text \<open>
  The call \<open>c1\<close> has a fragment pending when it is completed; a fragment that reuses the
  id afterwards starts from nothing.
\<close>

theorem completed_call_removed_witness:
  "field event_done ''call_id'' = Some (JStr ''c1'')
   \<and> field delta2 ''call_id'' = Some (JStr ''c1'')
   \<and> field delta2 ''delta'' = Some (JStr ''\"verbs\"}'')
   \<and> Map_get (pendingToolCalls session1) (JStr ''c1'')
       = Some \<lparr>name = JStr ''trigger_quiz'', argFragments = [''{\"focus\":'']\<rparr>
   \<and> Map_get (pendingToolCalls (fst (onToolCallDone rt0 session1 event_done))) (JStr ''c1'')
       = None
   \<and> Map_get
        (pendingToolCalls (onToolCallDelta (fst (onToolCallDone rt0 session1 event_done)) delta2))
        (JStr ''c1'')
       = Some \<lparr>name = JStr [], argFragments = [''\"verbs\"}'']\<rparr>"
proof -
  have dn: "field event_done ''call_id'' = Some (JStr ''c1'')"
    by (simp add: event_done_def)
  have id: "''c1'' \<noteq> []"
    by simp
  have fr1: "field delta2 ''call_id'' = Some (JStr ''c1'')"
    and fr2: "field delta2 ''delta'' = Some (JStr ''\"verbs\"}'')"
    by (simp_all add: delta2_def)
  have s1: "Map_get (pendingToolCalls session1) (JStr ''c1'')
       = Some \<lparr>name = JStr ''trigger_quiz'', argFragments = [''{\"focus\":'']\<rparr>"
    by (simp add: session1_eq Map_get_def)
  have nm: "or_else (field delta2 ''name'') (JStr []) = JStr []"
    by (simp add: delta2_def)
  note th = completed_call_removed [OF dn id fr1 fr2, of rt0 session1 "[]" "[]" "[]"]
  from th have a:
    "Map_get (pendingToolCalls (fst (onToolCallDone rt0 session1 event_done))) (JStr ''c1'')
       = None"
    by (rule conjunct1)
  from th have b:
    "Map_get
       (pendingToolCalls (onToolCallDelta (fst (onToolCallDone rt0 session1 event_done)) delta2))
       (JStr ''c1'')
     = Some \<lparr>name = JStr [], argFragments = [''\"verbs\"}'']\<rparr>"
    by (simp only: nm)
  show ?thesis
    by (intro conjI dn fr1 fr2 s1 a b)
qed

subsection \<open>Completion\<close>

lemma onToolCallDone_dispatch:
  assumes "field event ''call_id'' = Some callId" and "truthy (Some callId)"
      and "try_parse rt (argsString (Map_get (pendingToolCalls st) callId) event) = Inr args"
  shows "\<exists>rest out. snd (onToolCallDone rt st event) =
           (ExecuteTool (toolName (Map_get (pendingToolCalls st) callId) event) args
              (scenarioId st) # rest, out)"
  using assms
  by (simp add: onToolCallDone_def Let_def split: sum.splits)

text \<open>
  Claim C6, as the code has it, read off the call of the tool dispatcher. For a
  completion event with a call id: when the id has no pending entry, the arguments are
  parsed from the argument value carried on the event, or from \<open>{}\<close> when the event
  carries none (or an empty one), and the tool name is that of the event (or the empty
  string). When the id has an entry, the arguments are parsed from its concatenated
  fragments, and the tool name is the entry's when that is not empty, and otherwise
  again that of the event.
\<close>

theorem completion_fallbacks:
  assumes c: "field event ''call_id'' = Some callId" "truthy (Some callId)"
  shows "(Map_get (pendingToolCalls st) callId = None
            \<and> try_parse rt (or_else (field event ''arguments'') (JStr ''{}'')) = Inr args
          \<longrightarrow> (\<exists>rest out. snd (onToolCallDone rt st event) =
                 (ExecuteTool (or_else (field event ''name'') (JStr [])) args (scenarioId st)
                    # rest, out)))
       \<and> (Map_get (pendingToolCalls st) callId = Some e
            \<and> JSON_parse rt (concat (argFragments e)) = Inr args
          \<longrightarrow> (\<exists>rest out. snd (onToolCallDone rt st event) =
                 (ExecuteTool
                    (if truthy (Some (name e)) then name e
                     else or_else (field event ''name'') (JStr []))
                    args (scenarioId st)
                    # rest, out)))"
proof (intro conjI impI)
  assume "Map_get (pendingToolCalls st) callId = None
     \<and> try_parse rt (or_else (field event ''arguments'') (JStr ''{}'')) = Inr args"
  then show "\<exists>rest out. snd (onToolCallDone rt st event) =
      (ExecuteTool (or_else (field event ''name'') (JStr [])) args (scenarioId st) # rest, out)"
    using onToolCallDone_dispatch [OF c, of rt st args]
    by (simp add: argsString_def toolName_def)
next
  assume "Map_get (pendingToolCalls st) callId = Some e
     \<and> JSON_parse rt (concat (argFragments e)) = Inr args"
  then show "\<exists>rest out. snd (onToolCallDone rt st event) =
      (ExecuteTool
         (if truthy (Some (name e)) then name e else or_else (field event ''name'') (JStr []))
         args (scenarioId st) # rest, out)"
    using onToolCallDone_dispatch [OF c, of rt st args]
    by (simp add: argsString_def toolName_def try_parse_def)
qed

text \<open>A completion event for a call without an entry, with its own name and arguments.\<close>

theorem completion_fallbacks_witness:
  "field event_done ''call_id'' = Some (JStr ''c1'')
   \<and> field event_done ''name'' = Some (JStr ''trigger_quiz'')
   \<and> field event_done ''arguments'' = Some (JStr ''{}'')
   \<and> Map_get (pendingToolCalls session0) (JStr ''c1'') = None
   \<and> JSON_parse rt0 ''{}'' = Inr (JObj [])
   \<and> (\<exists>rest out. snd (onToolCallDone rt0 session0 event_done) =
         (ExecuteTool (JStr ''trigger_quiz'') (JObj []) ''a1_taxi_bogota'' # rest, out))"
proof -
  have c: "field event_done ''call_id'' = Some (JStr ''c1'')"
    and n: "field event_done ''name'' = Some (JStr ''trigger_quiz'')"
    and a: "field event_done ''arguments'' = Some (JStr ''{}'')"
    by (simp_all add: event_done_def)
  have t: "truthy (Some (JStr ''c1''))"
    by simp
  have m: "Map_get (pendingToolCalls session0) (JStr ''c1'') = None"
    by (simp add: session0_def active_session_def Map_get_def)
  have p: "JSON_parse rt0 ''{}'' = Inr (JObj [])"
    by (simp add: rt0_def JSON_parse0_def msgs)
  have p': "try_parse rt0 (or_else (field event_done ''arguments'') (JStr ''{}''))
      = Inr (JObj [])"
    by (simp add: a p try_parse_def)
  have s: "scenarioId session0 = ''a1_taxi_bogota''"
    by (simp add: session0_def active_session_def)
  have nm: "or_else (field event_done ''name'') (JStr []) = JStr ''trigger_quiz''"
    by (simp add: n)
  from completion_fallbacks [OF c t, of session0 rt0 "JObj []"] m p'
  have "\<exists>rest out. snd (onToolCallDone rt0 session0 event_done) =
      (ExecuteTool (or_else (field event_done ''name'') (JStr [])) (JObj []) (scenarioId session0)
         # rest, out)"
    by blast
  then have r: "\<exists>rest out. snd (onToolCallDone rt0 session0 event_done) =
      (ExecuteTool (JStr ''trigger_quiz'') (JObj []) ''a1_taxi_bogota'' # rest, out)"
    by (simp only: nm s)
  show ?thesis
    by (intro conjI c n a m p r)
qed

lemma done_unnamed:
  "onToolCallDone rt0 session_unnamed event_done =
     (session0,
      [ExecuteTool (JStr ''trigger_quiz'') (JObj []) ''a1_taxi_bogota'',
       UpstreamSend (Text
         (''{\"type\":\"conversation.item.create\",\"item\":{\"type\":\"function_call_output\",\"call_id\":\"c1\",\"output\":''
          @ quote ''{\"ok\":true,\"quiz\":{\"lesson_id\":\"a1_taxi_bogota\",\"focus\":\"vocabulary\"}}''
          @ ''}}'')),
       UpstreamSend (Text ''{\"type\":\"response.create\"}'')],
      Returned)"
  by (simp add: onToolCallDone_def event_done_def session_unnamed_eq session0_def
      active_session_def Map_get_def Map_delete_def argsString_def toolName_def try_parse_def rt0_def
      JSON_parse0_def msgs executeTool_def triggerQuiz_def
      sendUpstream_def is_open_def function_call_output_def response_create_def quote_def)

text \<open>
  The claim as it is written takes the tool name from the pending entry whenever an
  entry is present. Here the call \<open>c1\<close> has an entry, created by a fragment without a
  name, so that the entry's name is the empty string; the tool that is dispatched is the
  one the completion event names.
\<close>

theorem tool_name_from_completion_event:
  "Map_get (pendingToolCalls session_unnamed) (JStr ''c1'')
     = Some \<lparr>name = JStr [], argFragments = [''{}'']\<rparr>
   \<and> field event_done ''call_id'' = Some (JStr ''c1'')
   \<and> field event_done ''name'' = Some (JStr ''trigger_quiz'')
   \<and> toolName (Map_get (pendingToolCalls session_unnamed) (JStr ''c1'')) event_done
       = JStr ''trigger_quiz''
   \<and> fst (snd (onToolCallDone rt0 session_unnamed event_done)) =
      [ExecuteTool (JStr ''trigger_quiz'') (JObj []) ''a1_taxi_bogota'',
       UpstreamSend (Text
         (''{\"type\":\"conversation.item.create\",\"item\":{\"type\":\"function_call_output\",\"call_id\":\"c1\",\"output\":''
          @ quote ''{\"ok\":true,\"quiz\":{\"lesson_id\":\"a1_taxi_bogota\",\"focus\":\"vocabulary\"}}''
          @ ''}}'')),
       UpstreamSend (Text ''{\"type\":\"response.create\"}'')]"
proof -
  have m: "Map_get (pendingToolCalls session_unnamed) (JStr ''c1'')
     = Some \<lparr>name = JStr [], argFragments = [''{}'']\<rparr>"
    by (simp add: session_unnamed_eq Map_get_def)
  have c: "field event_done ''call_id'' = Some (JStr ''c1'')"
    and n: "field event_done ''name'' = Some (JStr ''trigger_quiz'')"
    by (simp_all add: event_done_def)
  have t: "toolName (Map_get (pendingToolCalls session_unnamed) (JStr ''c1'')) event_done
       = JStr ''trigger_quiz''"
    by (simp add: m toolName_def n)
  show ?thesis
    by (intro conjI m c n t) (simp add: done_unnamed)
qed

section \<open>Closing the session\<close>

text \<open>
  Claim C8, as the code has it. When the client connection closes or errors while the
  upstream connection is open, the upstream connection is closed with the normal-closure
  code 1000, both connection handles are dropped and the pending-call map is cleared.
  When the upstream connection closes while the client connection is open, the client
  connection is closed with the code and the reason of the upstream close event (the
  reason \<open>Upstream closed\<close> when that is empty), and the pending-call map is kept; it is
  cleared with the handles by the cleanup that the client's own close event runs.
\<close>

theorem close_propagation:
  "(is_open (upstreamWs st) \<longrightarrow>
      onClientClose st =
        (st\<lparr>upstreamWs := None, clientWs := None, pendingToolCalls := []\<rparr>,
         [UpstreamClose 1000 ''Client disconnected''])
      \<and> onClientError st = onClientClose st)
   \<and> (is_open (clientWs st) \<longrightarrow>
      onUpstreamClose st code reason =
        (st\<lparr>clientWs := Some \<lparr>readyState = CLOSING\<rparr>\<rparr>,
         [ClientClose code (if reason = [] then ''Upstream closed'' else reason)]))
   \<and> fst (onClientClose (fst (onUpstreamClose st code reason)))
       = st\<lparr>upstreamWs := None, clientWs := None, pendingToolCalls := []\<rparr>"
  by (simp add: onClientClose_def onClientError_def cleanup_def onUpstreamClose_def)

theorem close_propagation_witness:
  "is_open (upstreamWs session1) \<and> is_open (clientWs session1)
   \<and> onClientClose session1 =
        (session0\<lparr>upstreamWs := None, clientWs := None\<rparr>,
         [UpstreamClose 1000 ''Client disconnected''])
   \<and> onUpstreamClose session1 1000 [] =
        (session1\<lparr>clientWs := Some \<lparr>readyState = CLOSING\<rparr>\<rparr>,
         [ClientClose 1000 ''Upstream closed''])"
proof -
  have u: "is_open (upstreamWs session1)" and c: "is_open (clientWs session1)"
    by (simp_all add: session1_eq session0_def active_session_def is_open_def)
  have e: "session1\<lparr>upstreamWs := None, clientWs := None, pendingToolCalls := []\<rparr>
      = session0\<lparr>upstreamWs := None, clientWs := None\<rparr>"
    by (simp add: session1_eq session0_def active_session_def)
  note th = close_propagation [of session1 1000 "[]"]
  from th u have a: "onClientClose session1 =
        (session0\<lparr>upstreamWs := None, clientWs := None\<rparr>,
         [UpstreamClose 1000 ''Client disconnected''])"
    by (simp add: e)
  from th c have b: "onUpstreamClose session1 1000 [] =
        (session1\<lparr>clientWs := Some \<lparr>readyState = CLOSING\<rparr>\<rparr>,
         [ClientClose 1000 ''Upstream closed''])"
    by simp
  show ?thesis
    by (intro conjI u c a b)
qed

text \<open>
  The claim as it is written closes the client with a normal-closure code and releases
  the pending calls when the upstream connection closes. Here upstream closes with the
  code 1011 while a call is pending: the client is closed with 1011, and the call stays
  in the map.
\<close>

theorem upstream_close_code_forwarded:
  "is_open (clientWs session1)
   \<and> onUpstreamClose session1 1011 ''keepalive ping timeout'' =
        (session1\<lparr>clientWs := Some \<lparr>readyState = CLOSING\<rparr>\<rparr>,
         [ClientClose 1011 ''keepalive ping timeout''])
   \<and> pendingToolCalls (fst (onUpstreamClose session1 1011 ''keepalive ping timeout''))
       = [(JStr ''c1'', \<lparr>name = JStr ''trigger_quiz'', argFragments = [''{\"focus\":'']\<rparr>)]"
  by (simp add: onUpstreamClose_def session1_eq session0_def active_session_def is_open_def)

end
